theory Spec2Isabelle
  imports Complex_Main
begin

section \<open>Data model\<close>

text \<open>
  The tables of the application (SQLAlchemy models under \<^verbatim>\<open>app/models\<close>) are records, the
  database session is a record of tables. Python floats are idealised as reals; a
  \<^verbatim>\<open>datetime\<close> is an integer time stamp. Only the columns that the governance core reads
  or writes are kept.
\<close>

type_synonym timestamp = int

text \<open>
  A function that creates several rows reads \<^verbatim>\<open>datetime.utcnow()\<close> once per row. Such a
  function takes the clock of its run: \<open>now k\<close> is the time of the reading after \<open>k\<close>
  earlier readings.
\<close>

type_synonym clock = "nat \<Rightarrow> timestamp"

record model_registry =
  mr_status :: string
  mr_deployment_status :: string

record governance_policy =
  policy_name :: string
  max_allowed_mri :: real
  max_allowed_disparity :: real
  approval_required_above_mri :: real
  active :: bool

record risk_history =
  rh_model_id :: int
  risk_score :: real
  drift_component :: real
  fairness_component :: real
  rh_timestamp :: timestamp

record fairness_metric =
  fm_model_id :: int
  protected_attribute :: string
  group_name :: string
  total_predictions :: nat
  positive_predictions :: nat
  approval_rate :: real
  disparity_score :: real
  fairness_flag :: bool
  fm_timestamp :: timestamp

record drift_metric =
  dm_model_id :: int
  feature_name :: string
  psi_value :: real
  ks_statistic :: real
  drift_flag :: bool
  dm_timestamp :: timestamp

text \<open>
  A value stored in the JSON column \<^verbatim>\<open>input_features\<close>, as Python reads it back:
  \<^verbatim>\<open>None\<close>, a bool, an int of any size, a float, a string, or a container (list or dict,
  whose content no function of the core looks at).
\<close>

datatype pyval = PNone | PBool bool | PInt int | PFloat real | PStr string | PContainer

record prediction_log =
  pl_model_id :: int
  input_features :: "(string \<times> pyval) list"
  prediction :: real
  pl_timestamp :: timestamp

record audit_log =
  al_user_id :: int
  al_model_id :: int
  al_action :: string
  al_action_status :: string
  al_risk_score :: "real option"
  al_disparity_score :: "real option"
  al_governance_status :: "string option"
  al_override_used :: "string option"
  al_override_justification :: "string option"
  al_deployment_status :: "string option"
  al_details :: "(string \<times> string) list"
  al_timestamp :: timestamp

record db =
  models :: "int \<rightharpoonup> model_registry"
  policies :: "governance_policy list"
  risk_rows :: "risk_history list"
  fairness_rows :: "fairness_metric list"
  drift_rows :: "drift_metric list"
  prediction_logs :: "prediction_log list"
  audit_logs :: "audit_log list"

subsection \<open>Queries\<close>

text \<open>\<^verbatim>\<open>query.first()\<close>: the first row of the result, or \<^verbatim>\<open>None\<close>.\<close>

definition first_row :: "'a list \<Rightarrow> 'a option" where
  "first_row xs = (case xs of [] \<Rightarrow> None | x # _ \<Rightarrow> Some x)"

text \<open>
  \<^verbatim>\<open>order_by(col.desc())\<close> and \<^verbatim>\<open>order_by(col.asc())\<close>: a stable sort of the stored rows
  (rows with equal time stamps keep their storage order).
\<close>

definition order_by_desc :: "('a \<Rightarrow> timestamp) \<Rightarrow> 'a list \<Rightarrow> 'a list" where
  "order_by_desc k xs = sort_key (\<lambda>x. - k x) xs"

definition order_by_asc :: "('a \<Rightarrow> timestamp) \<Rightarrow> 'a list \<Rightarrow> 'a list" where
  "order_by_asc k xs = sort_key k xs"

text \<open>\<^verbatim>\<open>db.query(GovernancePolicy).filter(GovernancePolicy.active == True).first()\<close>\<close>

definition active_policy :: "db \<Rightarrow> governance_policy option" where
  "active_policy d = first_row (filter active (policies d))"

text \<open>The latest \<^verbatim>\<open>RiskHistory\<close> and \<^verbatim>\<open>FairnessMetric\<close> row of a model.\<close>

definition latest_risk :: "db \<Rightarrow> int \<Rightarrow> risk_history option" where
  "latest_risk d model_id =
     first_row (order_by_desc rh_timestamp (filter (\<lambda>r. rh_model_id r = model_id) (risk_rows d)))"

definition latest_fairness :: "db \<Rightarrow> int \<Rightarrow> fairness_metric option" where
  "latest_fairness d model_id =
     first_row (order_by_desc fm_timestamp
        (filter (\<lambda>r. fm_model_id r = model_id) (fairness_rows d)))"

subsection \<open>Rendering values in messages\<close>

text \<open>
  Python's \<^verbatim>\<open>str\<close> of an int and of a bool. The rendering of a float inside an f-string is
  a parameter \<open>fmt\<close> of the functions that build messages.
\<close>

fun str_nat :: "nat \<Rightarrow> string" where
  "str_nat n = (if n < 10 then [''0123456789'' ! n]
                else str_nat (n div 10) @ [''0123456789'' ! (n mod 10)])"

definition str_int :: "int \<Rightarrow> string" where
  "str_int i = (if i < 0 then ''-'' @ str_nat (nat (- i)) else str_nat (nat i))"

definition str_bool :: "bool \<Rightarrow> string" where
  "str_bool b = (if b then ''True'' else ''False'')"

section \<open>Governance Evaluator (\<^verbatim>\<open>services/governance_service.py\<close>)\<close>

record gov_result =
  status :: string
  reason :: string
  gr_risk_score :: "real option"
  gr_disparity_score :: "real option"

text \<open>
  \<^verbatim>\<open>evaluate_model_governance(db, model_id)\<close>. The result dictionary has the keys
  \<^verbatim>\<open>risk_score\<close> and \<^verbatim>\<open>disparity_score\<close> only on the path that applies the policy. The
  second component is the session after the call (\<^verbatim>\<open>model.status = new_status; db.commit()\<close>).
\<close>

definition evaluate_model_governance ::
  "(real \<Rightarrow> string) \<Rightarrow> db \<Rightarrow> int \<Rightarrow> gov_result \<times> db" where
  "evaluate_model_governance fmt d model_id =
     (case models d model_id of
        None \<Rightarrow>
          (\<lparr>status = ''draft'', reason = ''Model not found'',
            gr_risk_score = None, gr_disparity_score = None\<rparr>, d)
      | Some model \<Rightarrow>
          (case active_policy d of
             None \<Rightarrow>
               (\<lparr>status = (if mr_status model = [] then ''draft'' else mr_status model),
                 reason = ''No active policy'',
                 gr_risk_score = None, gr_disparity_score = None\<rparr>, d)
           | Some policy \<Rightarrow>
               (let rs = (case latest_risk d model_id of
                            None \<Rightarrow> 0 | Some r \<Rightarrow> risk_score r);
                    ds = (case latest_fairness d model_id of
                            None \<Rightarrow> 0 | Some f \<Rightarrow> disparity_score f);
                    (new_status, why) =
                      (if rs > max_allowed_mri policy then
                         (''blocked'',
                          ''Risk score '' @ fmt rs @ '' exceeds max allowed ''
                            @ fmt (max_allowed_mri policy))
                       else if ds > max_allowed_disparity policy then
                         (''at_risk'',
                          ''Disparity '' @ fmt ds @ '' exceeds max allowed ''
                            @ fmt (max_allowed_disparity policy))
                       else if rs > approval_required_above_mri policy then
                         (''at_risk'',
                          ''Risk score '' @ fmt rs @ '' requires approval (threshold ''
                            @ fmt (approval_required_above_mri policy) @ '')'')
                       else (''approved'', ''All governance checks passed''))
                in (\<lparr>status = new_status, reason = why,
                     gr_risk_score = Some rs, gr_disparity_score = Some ds\<rparr>,
                    d\<lparr>models := (models d)(model_id \<mapsto> model\<lparr>mr_status := new_status\<rparr>)\<rparr>))))"

section \<open>Audit Recorder (\<^verbatim>\<open>services/audit_service.py\<close>)\<close>

datatype log_level = INFO | WARNING | ERROR

type_synonym log_line = "log_level \<times> string"

definition str_opt :: "string option \<Rightarrow> string" where
  "str_opt s = (case s of None \<Rightarrow> ''None'' | Some t \<Rightarrow> t)"

text \<open>
  \<^verbatim>\<open>log_governance_action\<close>. Whether the database write succeeds is not decided by the
  program: \<open>failure\<close> is \<open>None\<close> when it succeeds and \<open>Some e\<close> when it raises an
  exception with message \<open>e\<close>. On failure the function logs, rolls the insert back and
  re-raises (\<open>Inl e\<close>).
\<close>

definition log_governance_action ::
  "string option \<Rightarrow> timestamp \<Rightarrow> db \<Rightarrow> int \<Rightarrow> int \<Rightarrow> string \<Rightarrow> string \<Rightarrow> real option
     \<Rightarrow> real option \<Rightarrow> string option \<Rightarrow> string option \<Rightarrow> string option \<Rightarrow> string option
     \<Rightarrow> (string \<times> string) list \<Rightarrow> (string + audit_log) \<times> db \<times> log_line list" where
  "log_governance_action failure now d user_id model_id action action_status rs ds
       governance_status override_used override_justification deployment_status details =
     (case failure of
        None \<Rightarrow>
          (let audit_entry =
                 \<lparr>al_user_id = user_id, al_model_id = model_id, al_action = action,
                  al_action_status = action_status, al_risk_score = rs,
                  al_disparity_score = ds, al_governance_status = governance_status,
                  al_override_used = override_used,
                  al_override_justification = override_justification,
                  al_deployment_status = deployment_status, al_details = details,
                  al_timestamp = now\<rparr>
           in (Inr audit_entry, d\<lparr>audit_logs := audit_logs d @ [audit_entry]\<rparr>,
               [(INFO, ''Audit: '' @ action @ '' for model '' @ str_int model_id
                       @ '' by user '' @ str_int user_id @ '' - status: '' @ action_status
                       @ '', governance: '' @ str_opt governance_status)]))
      | Some e \<Rightarrow>
          (Inl e, d, [(ERROR, ''Failed to log governance action: '' @ e)]))"

section \<open>Deployment Gate (\<^verbatim>\<open>api/governance.py\<close>, \<^verbatim>\<open>deploy_model\<close>)\<close>

datatype http_error = HTTPException nat string

record deploy_response =
  resp_model_id :: int
  resp_status :: string
  resp_message :: string
  resp_override_used :: bool

text \<open>
  The \<^verbatim>\<open>try: audit_service.log_governance_action(...) except Exception as e: logger.error(...)\<close>
  wrapper of every branch: the lines logged by the call, followed by the caller's own error
  line when the call raised.
\<close>

definition audit_guard ::
  "string \<Rightarrow> (string + audit_log) \<times> db \<times> log_line list \<Rightarrow> db \<times> log_line list" where
  "audit_guard msg r =
     (case r of
        (Inr _, d, ls) \<Rightarrow> (d, ls)
      | (Inl e, d, ls) \<Rightarrow> (d, ls @ [(ERROR, msg @ e)]))"

text \<open>
  \<^verbatim>\<open>deploy_model(model_id, override, db, current_user)\<close>. An \<^verbatim>\<open>HTTPException\<close> is the left
  summand. The result carries the session after the request and the lines logged.
  \<^verbatim>\<open>model\<close> is the ORM object that the evaluator updated, so the deployed row is the
  evaluated row with both status columns overwritten.
\<close>

definition deploy_model ::
  "(real \<Rightarrow> string) \<Rightarrow> string option \<Rightarrow> timestamp \<Rightarrow> db \<Rightarrow> int \<Rightarrow> bool \<Rightarrow> int
     \<Rightarrow> (http_error + deploy_response) \<times> db \<times> log_line list" where
  "deploy_model fmt failure now d model_id override user_id =
     (case models d model_id of
        None \<Rightarrow> (Inl (HTTPException 404 ''Model not found''), d, [])
      | Some model \<Rightarrow>
          (let (governance_result, d1) = evaluate_model_governance fmt d model_id;
               current_status = status governance_result;
               rs = (case gr_risk_score governance_result of None \<Rightarrow> 0 | Some r \<Rightarrow> r);
               ds = (case gr_disparity_score governance_result of None \<Rightarrow> 0 | Some r \<Rightarrow> r);
               requested =
                 [(INFO, ''Deployment requested for model '' @ str_int model_id @ '' by user ''
                         @ str_int user_id @ '': status='' @ current_status @ '', override=''
                         @ str_bool override @ '', risk='' @ fmt rs)]
           in if current_status = ''blocked'' then
                (let (d2, ls) = audit_guard ''Failed to log blocked deployment: ''
                       (log_governance_action failure now d1 user_id model_id ''deployment''
                          ''blocked'' (Some rs) (Some ds) (Some current_status) (Some ''no'') None
                          (Some ''blocked'')
                          [(''reason'', reason governance_result),
                           (''policy_violation'', ''hard_block'')])
                 in (Inl (HTTPException 403
                       (''Deployment blocked: '' @ reason governance_result
                          @ '' (Override not permitted for hard blocks)'')),
                     d2,
                     requested
                       @ [(WARNING, ''Deployment BLOCKED for model '' @ str_int model_id @ '': ''
                                    @ reason governance_result)]
                       @ ls))
              else if current_status = ''at_risk'' \<and> \<not> override then
                (let (d2, ls) = audit_guard ''Failed to log at-risk deployment: ''
                       (log_governance_action failure now d1 user_id model_id ''deployment''
                          ''rejected'' (Some rs) (Some ds) (Some current_status) (Some ''no'') None
                          (Some ''blocked'')
                          [(''reason'', reason governance_result),
                           (''policy_violation'', ''soft_gate'')])
                 in (Inl (HTTPException 403
                       (''Model at risk. '' @ reason governance_result
                          @ '' Add ?override=true to override.'')),
                     d2,
                     requested
                       @ [(WARNING, ''Deployment at-risk for model '' @ str_int model_id @ '': ''
                                    @ reason governance_result)]
                       @ ls))
              else
                (let used = (override \<and> current_status = ''at_risk'');
                     override_status = (if used then ''yes'' else ''no'');
                     d2 = d1\<lparr>models := (models d1)(model_id \<mapsto>
                             model\<lparr>mr_status := ''deployed'',
                                   mr_deployment_status := ''deployed''\<rparr>)\<rparr>;
                     (d3, ls) = audit_guard ''Failed to log successful deployment: ''
                       (log_governance_action failure now d2 user_id model_id ''deployment''
                          ''success'' (Some rs) (Some ds) (Some current_status)
                          (Some override_status) None (Some ''deployed'')
                          [(''deployment_allowed_reason'',
                            if current_status = ''approved'' then ''approved''
                            else ''override_used'')])
                 in (Inr \<lparr>resp_model_id = model_id, resp_status = ''deployed'',
                          resp_message = ''Model deployed successfully'',
                          resp_override_used = (override_status = ''yes'')\<rparr>,
                     d3,
                     requested
                       @ (if used then
                            [(WARNING, ''Deployment OVERRIDE used for model '' @ str_int model_id
                                @ '' by user '' @ str_int user_id @ '' (status=''
                                @ current_status @ '', risk='' @ fmt rs @ '')'')]
                          else [])
                       @ [(INFO, ''Model '' @ str_int model_id
                                @ '' deployed successfully by user '' @ str_int user_id
                                @ '' (override='' @ override_status @ '')'')]
                       @ ls))))"

section \<open>Simulation mode (\<^verbatim>\<open>api/simulation.py\<close>)\<close>

record sim_result =
  would_pass :: bool
  sim_reason :: string
  compliance_grade :: string
  sim_details :: "(string \<times> pyval) list"

text \<open>\<^verbatim>\<open>simulate_governance_check(risk_score, fairness_score, override, policy)\<close>\<close>

definition simulate_governance_check ::
  "(real \<Rightarrow> string) \<Rightarrow> real \<Rightarrow> real \<Rightarrow> bool \<Rightarrow> governance_policy \<Rightarrow> sim_result" where
  "simulate_governance_check fmt rs fairness_score override policy =
     (let ds = 100 - fairness_score
      in if rs > max_allowed_mri policy then
           \<lparr>would_pass = False,
            sim_reason = ''Risk score '' @ fmt rs @ '' exceeds hard limit ''
                           @ fmt (max_allowed_mri policy),
            compliance_grade = ''F'',
            sim_details = [(''risk_evaluation'', PStr ''BLOCKED''),
                           (''risk_score'', PFloat rs),
                           (''max_allowed'', PFloat (max_allowed_mri policy)),
                           (''override_allowed'', PBool False)]\<rparr>
         else if ds > max_allowed_disparity policy then
           \<lparr>would_pass = override,
            sim_reason = ''Disparity '' @ fmt ds @ '' exceeds limit ''
                           @ fmt (max_allowed_disparity policy) @ ''. Override: ''
                           @ str_bool override,
            compliance_grade = (if override then ''D'' else ''F''),
            sim_details = [(''fairness_evaluation'', PStr ''AT_RISK''),
                           (''disparity_score'', PFloat ds),
                           (''max_allowed'', PFloat (max_allowed_disparity policy)),
                           (''override_used'', PBool override),
                           (''override_allowed'', PBool True)]\<rparr>
         else if rs > approval_required_above_mri policy then
           \<lparr>would_pass = override,
            sim_reason = ''Risk '' @ fmt rs @ '' requires approval (threshold ''
                           @ fmt (approval_required_above_mri policy) @ ''). Override: ''
                           @ str_bool override,
            compliance_grade = (if override then ''C'' else ''B''),
            sim_details = [(''risk_evaluation'', PStr ''APPROVAL_REQUIRED''),
                           (''risk_score'', PFloat rs),
                           (''approval_threshold'', PFloat (approval_required_above_mri policy)),
                           (''override_used'', PBool override),
                           (''override_allowed'', PBool True)]\<rparr>
         else
           \<lparr>would_pass = True,
            sim_reason = ''All governance checks passed'',
            compliance_grade = ''A'',
            sim_details = [(''risk_evaluation'', PStr ''APPROVED''),
                           (''fairness_evaluation'', PStr ''APPROVED''),
                           (''risk_score'', PFloat rs),
                           (''disparity_score'', PFloat ds),
                           (''thresholds_met'', PBool True)]\<rparr>)"

text \<open>
  The endpoint \<^verbatim>\<open>check_governance_simulation\<close>: it reads the active policy, runs the
  simulation and logs one line. The session is returned as the second component.
\<close>

definition check_governance_simulation ::
  "(real \<Rightarrow> string) \<Rightarrow> db \<Rightarrow> real \<Rightarrow> real \<Rightarrow> bool
     \<Rightarrow> (http_error + sim_result \<times> string) \<times> db \<times> log_line list" where
  "check_governance_simulation fmt d rs fairness_score override =
     (case active_policy d of
        None \<Rightarrow>
          (Inl (HTTPException 400 ''No active governance policy defined for simulation''), d, [])
      | Some policy \<Rightarrow>
          (let result = simulate_governance_check fmt rs fairness_score override policy
           in (Inr (result, policy_name policy), d,
               [(INFO, ''Governance simulation executed: risk='' @ fmt rs @ '', fairness=''
                       @ fmt fairness_score @ '', override='' @ str_bool override
                       @ '', result='' @ str_bool (would_pass result))])))"

section \<open>Risk Composer (\<^verbatim>\<open>services/risk_service.py\<close>)\<close>

text \<open>
  Python's \<^verbatim>\<open>round(x, n)\<close> on the idealised reals: the nearest multiple of \<open>10 ^ - n\<close>,
  a tie going to the even one.
\<close>

definition round_half_even :: "real \<Rightarrow> int" where
  "round_half_even x =
     (let f = \<lfloor>x\<rfloor>; r = x - of_int f
      in if r < 1 / 2 then f else if r > 1 / 2 then f + 1 else if even f then f else f + 1)"

definition py_round :: "real \<Rightarrow> nat \<Rightarrow> real" where
  "py_round x n = of_int (round_half_even (x * 10 ^ n)) / 10 ^ n"

definition calculate_fairness_component :: "db \<Rightarrow> int \<Rightarrow> real" where
  "calculate_fairness_component d model_id =
     (case latest_fairness d model_id of
        None \<Rightarrow> 0
      | Some f \<Rightarrow> py_round (min 100 (disparity_score f * 100)) 2)"

definition calculate_drift_component :: "db \<Rightarrow> int \<Rightarrow> real" where
  "calculate_drift_component d model_id =
     (let recent_drift_metrics =
            take 50 (order_by_desc dm_timestamp
                       (filter (\<lambda>m. dm_model_id m = model_id) (drift_rows d)))
      in if recent_drift_metrics = [] then 0
         else
           (let psi_values = map psi_value recent_drift_metrics;
                ks_values = map ks_statistic recent_drift_metrics;
                avg_psi = (if psi_values \<noteq> []
                           then sum_list psi_values / real (length psi_values) else 0);
                avg_ks = (if ks_values \<noteq> []
                          then sum_list ks_values / real (length ks_values) else 0);
                dc = avg_psi * 60 + avg_ks * 40;
                normalized_drift = min 100 (dc / (16 / 10))
            in py_round normalized_drift 2))"

definition calculate_mri_score :: "db \<Rightarrow> int \<Rightarrow> real" where
  "calculate_mri_score d model_id =
     (let dc = calculate_drift_component d model_id;
          fc = calculate_fairness_component d model_id;
          rs = dc * (6 / 10) + fc * (4 / 10);
          normalized_risk = min 100 (max 0 rs)
      in py_round normalized_risk 2)"

text \<open>\<^verbatim>\<open>create_risk_history_entry\<close>: the new row and the session with the row appended.\<close>

definition create_risk_history_entry :: "timestamp \<Rightarrow> db \<Rightarrow> int \<Rightarrow> risk_history \<times> db" where
  "create_risk_history_entry now d model_id =
     (let rs = calculate_mri_score d model_id;
          dc = calculate_drift_component d model_id;
          fc = calculate_fairness_component d model_id;
          risk_entry = \<lparr>rh_model_id = model_id, risk_score = rs, drift_component = dc,
                        fairness_component = fc, rh_timestamp = now\<rparr>
      in (risk_entry, d\<lparr>risk_rows := risk_rows d @ [risk_entry]\<rparr>))"

section \<open>Fairness Calculator (\<^verbatim>\<open>services/fairness_service.py\<close>)\<close>

text \<open>
  \<^verbatim>\<open>group_stats\<close>, a \<^verbatim>\<open>defaultdict\<close> from the group to its counters \<^verbatim>\<open>total\<close> and
  \<^verbatim>\<open>positive\<close>, in insertion order. \<open>bump_group g pos\<close> is one round of the loop body for
  a log of group \<open>g\<close> whose prediction is positive iff \<open>pos\<close>.
\<close>

type_synonym group_stats = "(string \<times> nat \<times> nat) list"

fun bump_group :: "string \<Rightarrow> bool \<Rightarrow> group_stats \<Rightarrow> group_stats" where
  "bump_group g pos [] = [(g, 1, if pos then 1 else 0)]"
| "bump_group g pos ((k, t, p) # rest) =
     (if k = g then (k, t + 1, if pos then p + 1 else p) # rest
      else (k, t, p) # bump_group g pos rest)"

text \<open>
  The grouping loop. \<open>py_str\<close> is Python's \<^verbatim>\<open>str\<close> on a feature value. A log whose
  \<^verbatim>\<open>input_features\<close> is empty or lacks the attribute is skipped.
\<close>

fun group_logs ::
  "(pyval \<Rightarrow> string) \<Rightarrow> string \<Rightarrow> prediction_log list \<Rightarrow> group_stats \<Rightarrow> group_stats" where
  "group_logs py_str attr [] gs = gs"
| "group_logs py_str attr (l # ls) gs =
     (case map_of (input_features l) attr of
        None \<Rightarrow> group_logs py_str attr ls gs
      | Some v \<Rightarrow> group_logs py_str attr ls (bump_group (py_str v) (prediction l > 1 / 2) gs))"

definition approval_rates :: "group_stats \<Rightarrow> (string \<times> real) list" where
  "approval_rates gs =
     map (\<lambda>(g, t, p). (g, if t > 0 then real p / real t else 0)) gs"

definition get_fairness_threshold :: "db \<Rightarrow> real \<times> log_line list" where
  "get_fairness_threshold d =
     (case active_policy d of
        Some policy \<Rightarrow> (max_allowed_disparity policy, [])
      | None \<Rightarrow>
          (25 / 100,
           [(WARNING, ''No active policy found for fairness threshold, using default 0.25'')]))"

record fairness_result =
  fr_disparity_score :: real
  fr_fairness_flag :: bool
  fr_groups :: "fairness_metric list"

text \<open>
  \<^verbatim>\<open>calculate_fairness_for_model(db, model_id, protected_attribute)\<close>: the returned
  dictionary, the session with the new rows, and the lines logged. The row of the
  \<open>k\<close>-th group is stamped with the \<open>k\<close>-th reading of the clock.
\<close>

definition calculate_fairness_for_model ::
  "(pyval \<Rightarrow> string) \<Rightarrow> (real \<Rightarrow> string) \<Rightarrow> clock \<Rightarrow> db \<Rightarrow> int \<Rightarrow> string
     \<Rightarrow> fairness_result \<times> db \<times> log_line list" where
  "calculate_fairness_for_model py_str fmt now d model_id attr =
     (let logs = filter (\<lambda>l. pl_model_id l = model_id) (prediction_logs d)
      in if logs = [] then
           (\<lparr>fr_disparity_score = 0, fr_fairness_flag = False, fr_groups = []\<rparr>, d, [])
         else
           (let gs = group_logs py_str attr logs []
            in if gs = [] then
                 (\<lparr>fr_disparity_score = 0, fr_fairness_flag = False, fr_groups = []\<rparr>, d, [])
               else
                 (let rates = approval_rates gs;
                      ds = (if rates \<noteq> []
                            then Max (set (map snd rates)) - Min (set (map snd rates)) else 0);
                      (fairness_threshold, warn) = get_fairness_threshold d;
                      flag = (ds > fairness_threshold);
                      fairness_metrics =
                        map (\<lambda>(k, g, t, p).
                               \<lparr>fm_model_id = model_id, protected_attribute = attr,
                                group_name = g, total_predictions = t,
                                positive_predictions = p,
                                approval_rate = (case map_of rates g of
                                                   None \<Rightarrow> 0 | Some r \<Rightarrow> r),
                                disparity_score = ds, fairness_flag = flag,
                                fm_timestamp = now k\<rparr>) (enumerate 0 gs)
                  in (\<lparr>fr_disparity_score = py_round ds 4, fr_fairness_flag = flag,
                       fr_groups = fairness_metrics\<rparr>,
                      d\<lparr>fairness_rows := fairness_rows d @ fairness_metrics\<rparr>,
                      warn @ [(INFO, ''Fairness calculation for model '' @ str_int model_id
                                 @ '', attribute '' @ attr @ '': disparity='' @ fmt ds
                                 @ '', threshold='' @ fmt fairness_threshold @ '', flag=''
                                 @ str_bool flag)]))))"

text \<open>
  The specification's words for the rows of one run: the group of a log is the string of
  its attribute value (a log without the attribute has none), the groups observed are the
  groups of the logs, and the approval rate of a group is the number of its predictions
  with score above 0.5 over the number of its predictions.
\<close>

definition group_of :: "(pyval \<Rightarrow> string) \<Rightarrow> string \<Rightarrow> prediction_log \<Rightarrow> string option" where
  "group_of py_str attr l = map_option py_str (map_of (input_features l) attr)"

definition observed_groups :: "(pyval \<Rightarrow> string) \<Rightarrow> string \<Rightarrow> prediction_log list \<Rightarrow> string set" where
  "observed_groups py_str attr logs = set (List.map_filter (group_of py_str attr) logs)"

definition spec_approval_rate ::
  "(pyval \<Rightarrow> string) \<Rightarrow> string \<Rightarrow> prediction_log list \<Rightarrow> string \<Rightarrow> real" where
  "spec_approval_rate py_str attr logs g =
     real (length (filter (\<lambda>l. group_of py_str attr l = Some g \<and> prediction l > 1 / 2) logs))
       / real (length (filter (\<lambda>l. group_of py_str attr l = Some g) logs))"

definition spec_disparity :: "(pyval \<Rightarrow> string) \<Rightarrow> string \<Rightarrow> prediction_log list \<Rightarrow> real" where
  "spec_disparity py_str attr logs =
     Max (spec_approval_rate py_str attr logs ` observed_groups py_str attr logs)
       - Min (spec_approval_rate py_str attr logs ` observed_groups py_str attr logs)"

section \<open>Drift Calculator (\<^verbatim>\<open>services/drift_service.py\<close>)\<close>

datatype py_error = ValueError | TypeError | OverflowError

text \<open>
  Python's \<^verbatim>\<open>float(v)\<close> on a feature value. \<open>parse\<close> is the parser of a string (\<open>None\<close>
  where Python raises \<^verbatim>\<open>ValueError\<close>). An int that rounds beyond the largest double raises
  \<^verbatim>\<open>OverflowError\<close>; \<^verbatim>\<open>None\<close> and containers raise \<^verbatim>\<open>TypeError\<close>.
\<close>

definition py_float :: "(string \<Rightarrow> real option) \<Rightarrow> pyval \<Rightarrow> py_error + real" where
  "py_float parse v =
     (case v of
        PNone \<Rightarrow> Inl TypeError
      | PBool b \<Rightarrow> Inr (if b then 1 else 0)
      | PInt n \<Rightarrow> (if \<bar>n\<bar> \<ge> 2 ^ 1024 - 2 ^ 970 then Inl OverflowError else Inr (of_int n))
      | PFloat x \<Rightarrow> Inr x
      | PStr s \<Rightarrow> (case parse s of None \<Rightarrow> Inl ValueError | Some x \<Rightarrow> Inr x)
      | PContainer \<Rightarrow> Inl TypeError)"

text \<open>
  The extraction loop shared by \<^verbatim>\<open>get_baseline_data\<close> and \<^verbatim>\<open>get_recent_data\<close>: the key
  membership test comes first, the handler catches \<^verbatim>\<open>ValueError\<close> and \<^verbatim>\<open>TypeError\<close> only,
  and the stored prediction score is used only when the key is absent and the name is
  \<^verbatim>\<open>prediction\<close>.
\<close>

fun extract_values ::
  "(string \<Rightarrow> real option) \<Rightarrow> string \<Rightarrow> prediction_log list \<Rightarrow> py_error + real list" where
  "extract_values parse f [] = Inr []"
| "extract_values parse f (l # ls) =
     (case map_of (input_features l) f of
        Some v \<Rightarrow>
          (case py_float parse v of
             Inr x \<Rightarrow> (case extract_values parse f ls of
                         Inl e \<Rightarrow> Inl e | Inr xs \<Rightarrow> Inr (x # xs))
           | Inl ValueError \<Rightarrow> extract_values parse f ls
           | Inl TypeError \<Rightarrow> extract_values parse f ls
           | Inl OverflowError \<Rightarrow> Inl OverflowError)
      | None \<Rightarrow>
          (if f = ''prediction''
           then (case extract_values parse f ls of
                   Inl e \<Rightarrow> Inl e | Inr xs \<Rightarrow> Inr (prediction l # xs))
           else extract_values parse f ls))"

definition model_logs :: "db \<Rightarrow> int \<Rightarrow> prediction_log list" where
  "model_logs d model_id = filter (\<lambda>l. pl_model_id l = model_id) (prediction_logs d)"

definition baseline_logs :: "db \<Rightarrow> int \<Rightarrow> prediction_log list" where
  "baseline_logs d model_id = take 100 (order_by_asc pl_timestamp (model_logs d model_id))"

definition recent_logs :: "nat \<Rightarrow> db \<Rightarrow> int \<Rightarrow> prediction_log list" where
  "recent_logs window_size d model_id =
     take window_size (order_by_desc pl_timestamp (model_logs d model_id))"

definition get_baseline_data ::
  "(string \<Rightarrow> real option) \<Rightarrow> db \<Rightarrow> int \<Rightarrow> string \<Rightarrow> py_error + real list" where
  "get_baseline_data parse d model_id f =
     (case models d model_id of
        None \<Rightarrow> Inr []
      | Some model \<Rightarrow>
          (if baseline_logs d model_id = [] then Inr []
           else extract_values parse f (baseline_logs d model_id)))"

definition get_recent_data ::
  "(string \<Rightarrow> real option) \<Rightarrow> nat \<Rightarrow> db \<Rightarrow> int \<Rightarrow> string \<Rightarrow> py_error + real list" where
  "get_recent_data parse window_size d model_id f =
     (if recent_logs window_size d model_id = [] then Inr []
      else extract_values parse f (recent_logs window_size d model_id))"

subsection \<open>PSI and KS\<close>

text \<open>\<^verbatim>\<open>np.linspace(a, b, num)\<close>: \<open>num\<close> evenly spaced points from \<open>a\<close> to \<open>b\<close>.\<close>

definition linspace :: "real \<Rightarrow> real \<Rightarrow> nat \<Rightarrow> real list" where
  "linspace a b num = map (\<lambda>i. a + real i * ((b - a) / real (num - 1))) [0 ..< num]"

text \<open>
  \<^verbatim>\<open>np.histogram(xs, bins=edges)\<close>: every bin is half open, the last one is closed on
  the right.
\<close>

definition histogram :: "real list \<Rightarrow> real list \<Rightarrow> nat list" where
  "histogram xs edges =
     map (\<lambda>i. length (filter (\<lambda>x. edges ! i \<le> x \<and>
                 (if i + 2 = length edges then x \<le> edges ! (i + 1) else x < edges ! (i + 1))) xs))
         [0 ..< length edges - 1]"

definition percents :: "nat list \<Rightarrow> nat \<Rightarrow> real list" where
  "percents counts bins =
     map (\<lambda>c. (real c + 1 / 1000000) / (real (sum_list counts) + real bins * (1 / 1000000)))
         counts"

text \<open>
  \<^verbatim>\<open>calculate_psi\<close>. \<^verbatim>\<open>np.linspace\<close> forms \<^verbatim>\<open>stop - start\<close> in floating point. A
  difference of at least \<open>2 ^ 1024 - 2 ^ 970\<close> rounds to \<^verbatim>\<open>inf\<close>; the inner break
  points are then \<^verbatim>\<open>nan\<close> or \<^verbatim>\<open>inf\<close> while the last one is the finite maximum, and
  \<^verbatim>\<open>np.histogram\<close> raises \<^verbatim>\<open>ValueError\<close> (the bins do not increase monotonically).
\<close>

definition float_overflow :: "real \<Rightarrow> bool" where
  "float_overflow x \<longleftrightarrow> \<bar>x\<bar> \<ge> 2 ^ 1024 - 2 ^ 970"

definition calculate_psi :: "real list \<Rightarrow> real list \<Rightarrow> nat \<Rightarrow> py_error + real" where
  "calculate_psi expected actual bins =
     (if expected = [] \<or> actual = [] then Inr 0
      else
        (let min_val = min (Min (set expected)) (Min (set actual));
             max_val = max (Max (set expected)) (Max (set actual))
         in if float_overflow (max_val - min_val) then Inl ValueError
            else
              (let breakpoints = linspace min_val max_val (bins + 1);
                   expected_counts = histogram expected breakpoints;
                   actual_counts = histogram actual breakpoints;
                   expected_percents = percents expected_counts bins;
                   actual_percents = percents actual_counts bins;
                   psi_values = map2 (\<lambda>a e. (a - e) * ln (a / e))
                                  actual_percents expected_percents
               in Inr (sum_list psi_values))))"

text \<open>
  Modelled from the spec: \<^verbatim>\<open>scipy.stats.ks_2samp\<close>, the library routine that
  \<^verbatim>\<open>calculate_ks_statistic\<close> calls, is not part of the repository. The specification
  describes its statistic as the maximum absolute difference between the empirical
  distribution functions of the two samples; the maximum is attained at a sample point.
\<close>

definition ecdf :: "real list \<Rightarrow> real \<Rightarrow> real" where
  "ecdf xs t = real (length (filter (\<lambda>x. x \<le> t) xs)) / real (length xs)"

definition ks_2samp :: "real list \<Rightarrow> real list \<Rightarrow> real" where
  "ks_2samp xs ys = Max ((\<lambda>t. \<bar>ecdf xs t - ecdf ys t\<bar>) ` set (xs @ ys))"

definition calculate_ks_statistic :: "real list \<Rightarrow> real list \<Rightarrow> real" where
  "calculate_ks_statistic expected actual =
     (if expected = [] \<or> actual = [] then 0 else ks_2samp expected actual)"

subsection \<open>The drift run\<close>

record settings =
  DRIFT_WINDOW_SIZE :: nat
  PSI_THRESHOLD :: real
  KS_THRESHOLD :: real

definition default_settings :: settings where
  "default_settings =
     \<lparr>DRIFT_WINDOW_SIZE = 100, PSI_THRESHOLD = 25 / 100, KS_THRESHOLD = 2 / 10\<rparr>"

text \<open>
  \<^verbatim>\<open>features_to_monitor\<close>: the keys of the first stored log of the model (when it has
  any), then \<^verbatim>\<open>prediction\<close>, appended without a membership test.
\<close>

definition features_to_monitor :: "db \<Rightarrow> int \<Rightarrow> string list" where
  "features_to_monitor d model_id =
     (case first_row (model_logs d model_id) of
        None \<Rightarrow> []
      | Some sample_log \<Rightarrow> map fst (input_features sample_log)) @ [''prediction'']"

text \<open>The new \<^verbatim>\<open>DriftMetric\<close> row of a feature, from its PSI, its KS statistic and the time.\<close>

definition drift_row ::
  "settings \<Rightarrow> timestamp \<Rightarrow> int \<Rightarrow> string \<Rightarrow> real \<Rightarrow> real \<Rightarrow> drift_metric" where
  "drift_row cfg ts model_id f psi ks =
     \<lparr>dm_model_id = model_id, feature_name = f, psi_value = psi, ks_statistic = ks,
      drift_flag = (psi \<ge> PSI_THRESHOLD cfg \<or> ks \<ge> KS_THRESHOLD cfg), dm_timestamp = ts\<rparr>"

text \<open>
  The loop over the features; \<open>k\<close> counts the rows created so far, and the next row is
  stamped with the \<open>k\<close>-th reading of the clock. A raise inside the loop leaves it
  (\<open>Inl\<close>); a feature with fewer than 10 baseline or recent values is passed over
  (\<^verbatim>\<open>continue\<close>).
\<close>

fun drift_loop ::
  "(string \<Rightarrow> real option) \<Rightarrow> settings \<Rightarrow> clock \<Rightarrow> nat \<Rightarrow> db \<Rightarrow> int \<Rightarrow> string list
     \<Rightarrow> py_error + drift_metric list" where
  "drift_loop parse cfg now k d model_id [] = Inr []"
| "drift_loop parse cfg now k d model_id (f # fs) =
     (case get_baseline_data parse d model_id f of
        Inl e \<Rightarrow> Inl e
      | Inr baseline \<Rightarrow>
          (case get_recent_data parse (DRIFT_WINDOW_SIZE cfg) d model_id f of
             Inl e \<Rightarrow> Inl e
           | Inr recent \<Rightarrow>
               (if length baseline < 10 \<or> length recent < 10
                then drift_loop parse cfg now k d model_id fs
                else
                  (case calculate_psi baseline recent 10 of
                     Inl e \<Rightarrow> Inl e
                   | Inr psi \<Rightarrow>
                       (case drift_loop parse cfg now (Suc k) d model_id fs of
                          Inl e \<Rightarrow> Inl e
                        | Inr ms \<Rightarrow>
                            Inr (drift_row cfg (now k) model_id f psi
                                   (calculate_ks_statistic baseline recent) # ms))))))"

text \<open>
  \<^verbatim>\<open>calculate_drift_for_model(db, model_id)\<close>: an uncaught exception, or the list of the
  rows created together with the session after \<^verbatim>\<open>db.commit()\<close>.
\<close>

definition calculate_drift_for_model ::
  "(string \<Rightarrow> real option) \<Rightarrow> settings \<Rightarrow> clock \<Rightarrow> db \<Rightarrow> int
     \<Rightarrow> py_error + drift_metric list \<times> db" where
  "calculate_drift_for_model parse cfg now d model_id =
     (case models d model_id of
        None \<Rightarrow> Inr ([], d)
      | Some model \<Rightarrow>
          (case drift_loop parse cfg now 0 d model_id (features_to_monitor d model_id) of
             Inl e \<Rightarrow> Inl e
           | Inr drift_metrics \<Rightarrow>
               Inr (drift_metrics, d\<lparr>drift_rows := drift_rows d @ drift_metrics\<rparr>)))"

section \<open>The specification's formulas\<close>

text \<open>
  The risk score as the specification states it:
  \<^verbatim>\<open>round(clamp(drift*0.6 + fairness*0.4, 0, 100), 2)\<close>.
\<close>

definition spec_risk_score :: "real \<Rightarrow> real \<Rightarrow> real" where
  "spec_risk_score drift fairness =
     py_round (min 100 (max 0 (drift * (6 / 10) + fairness * (4 / 10)))) 2"

text \<open>The two counters of a group: its logs, and its logs with a score above 0.5.\<close>

definition total_of :: "(pyval \<Rightarrow> string) \<Rightarrow> string \<Rightarrow> prediction_log list \<Rightarrow> string \<Rightarrow> nat" where
  "total_of py_str attr logs g = length (filter (\<lambda>l. group_of py_str attr l = Some g) logs)"

definition positive_of :: "(pyval \<Rightarrow> string) \<Rightarrow> string \<Rightarrow> prediction_log list \<Rightarrow> string \<Rightarrow> nat" where
  "positive_of py_str attr logs g =
     length (filter (\<lambda>l. group_of py_str attr l = Some g \<and> prediction l > 1 / 2) logs)"

text \<open>
  A log with its stored prediction score replaced, when its input features have a key
  named \<^verbatim>\<open>prediction\<close>; used to state that such a score is never read.
\<close>

definition overwrite_score :: "(prediction_log \<Rightarrow> real) \<Rightarrow> prediction_log \<Rightarrow> prediction_log" where
  "overwrite_score g l =
     (if map_of (input_features l) ''prediction'' = None then l else l\<lparr>prediction := g l\<rparr>)"

text \<open>
  What one log contributes to a sample of the feature named \<^verbatim>\<open>prediction\<close>: the value
  under that key when the log has the key and \<^verbatim>\<open>float\<close> accepts the value, nothing when
  it has the key and \<^verbatim>\<open>float\<close> refuses the value, and its stored prediction score when
  it lacks the key.
\<close>

definition prediction_value :: "(string \<Rightarrow> real option) \<Rightarrow> prediction_log \<Rightarrow> real option" where
  "prediction_value parse l =
     (case map_of (input_features l) ''prediction'' of
        None \<Rightarrow> Some (prediction l)
      | Some v \<Rightarrow> (case py_float parse v of Inr x \<Rightarrow> Some x | Inl e \<Rightarrow> None))"

section \<open>Example sessions\<close>

text \<open>
  The policy of the specification's examples (hard ceiling 80, fairness ceiling 0.15,
  soft gate 60), one registered model, and one risk row and one fairness row with the
  given scores.
\<close>

definition ex_policy :: governance_policy where
  "ex_policy = \<lparr>policy_name = ''default'', max_allowed_mri = 80,
     max_allowed_disparity = 15 / 100, approval_required_above_mri = 60, active = True\<rparr>"

definition ex_model :: model_registry where
  "ex_model = \<lparr>mr_status = ''draft'', mr_deployment_status = ''draft''\<rparr>"

definition ex_db :: "real \<Rightarrow> real \<Rightarrow> db" where
  "ex_db rs ds =
     \<lparr>models = [1 \<mapsto> ex_model], policies = [ex_policy],
      risk_rows = [\<lparr>rh_model_id = 1, risk_score = rs, drift_component = 0,
                    fairness_component = 0, rh_timestamp = 1\<rparr>],
      fairness_rows = [\<lparr>fm_model_id = 1, protected_attribute = ''gender'', group_name = ''F'',
                        total_predictions = 1, positive_predictions = 1, approval_rate = 1,
                        disparity_score = ds, fairness_flag = False, fm_timestamp = 1\<rparr>],
      drift_rows = [], prediction_logs = [], audit_logs = []\<rparr>"

definition ex_db_no_policy :: db where
  "ex_db_no_policy =
     \<lparr>models = [1 \<mapsto> ex_model\<lparr>mr_status := ''approved''\<rparr>], policies = [],
      risk_rows = [], fairness_rows = [], drift_rows = [], prediction_logs = [],
      audit_logs = []\<rparr>"

text \<open>
  The fairness example of the specification: group \<open>A\<close> with 14 approvals out of 20
  (rate 0.70) and group \<open>B\<close> with 9 out of 20 (rate 0.45).
\<close>

definition ex_log :: "string \<Rightarrow> real \<Rightarrow> prediction_log" where
  "ex_log g p = \<lparr>pl_model_id = 1, input_features = [(''gender'', PStr g)], prediction = p,
                 pl_timestamp = 0\<rparr>"

definition ex_str :: "pyval \<Rightarrow> string" where
  "ex_str v = (case v of PStr s \<Rightarrow> s | _ \<Rightarrow> ''?'')"

definition ex_fair_db :: db where
  "ex_fair_db =
     \<lparr>models = [1 \<mapsto> ex_model], policies = [ex_policy], risk_rows = [], fairness_rows = [],
      drift_rows = [],
      prediction_logs = replicate 14 (ex_log ''A'' (9 / 10)) @ replicate 6 (ex_log ''A'' (1 / 10))
                      @ replicate 9 (ex_log ''B'' (9 / 10)) @ replicate 11 (ex_log ''B'' (1 / 10)),
      audit_logs = []\<rparr>"

text \<open>
  Sessions for the drift run: \<open>n\<close> logs whose input features include one named
  \<^verbatim>\<open>prediction\<close> (value 0.3, stored score 0.9), and one log with an integer feature
  value \<open>2 ^ 1024\<close>, beyond the range of a float.
\<close>

definition ex_pred_log :: prediction_log where
  "ex_pred_log = \<lparr>pl_model_id = 1, input_features = [(''prediction'', PFloat (3 / 10))],
                  prediction = 9 / 10, pl_timestamp = 0\<rparr>"

definition ex_pred_db :: "nat \<Rightarrow> db" where
  "ex_pred_db n =
     \<lparr>models = [1 \<mapsto> ex_model], policies = [], risk_rows = [], fairness_rows = [],
      drift_rows = [], prediction_logs = replicate n ex_pred_log, audit_logs = []\<rparr>"

definition ex_big_int :: int where
  "ex_big_int = 2 ^ 1024"

definition ex_overflow_db :: db where
  "ex_overflow_db =
     \<lparr>models = [1 \<mapsto> ex_model], policies = [], risk_rows = [], fairness_rows = [],
      drift_rows = [],
      prediction_logs = [\<lparr>pl_model_id = 1, input_features = [(''amount'', PInt ex_big_int)],
                          prediction = 1 / 2, pl_timestamp = 0\<rparr>],
      audit_logs = []\<rparr>"

text \<open>
  Two logs of one model: the first has no input feature named \<^verbatim>\<open>prediction\<close> (stored
  score 0.9), the second has one (value 0.3, stored score 0.5).
\<close>

definition ex_mixed_db :: db where
  "ex_mixed_db =
     \<lparr>models = [1 \<mapsto> ex_model], policies = [], risk_rows = [], fairness_rows = [],
      drift_rows = [],
      prediction_logs =
        [\<lparr>pl_model_id = 1, input_features = [(''age'', PInt 40)], prediction = 9 / 10,
          pl_timestamp = 0\<rparr>,
         \<lparr>pl_model_id = 1, input_features = [(''prediction'', PFloat (3 / 10))],
          prediction = 1 / 2, pl_timestamp = 1\<rparr>],
      audit_logs = []\<rparr>"



section \<open>Properties of the Governance Evaluator and the Deployment Gate\<close>

lemma first_row_None [simp]: "first_row xs = None \<longleftrightarrow> xs = []"
  by (simp add: first_row_def split: list.splits)

lemma audit_guard_models:
  "models (fst (audit_guard msg (log_governance_action failure now d u m a s r1 r2 g ou oj dep det)))
     = models d"
  by (simp add: audit_guard_def log_governance_action_def Let_def split: option.splits)

lemma audit_guard_failure:
  "audit_guard msg (log_governance_action (Some e) now d u m a s r1 r2 g ou oj dep det) =
     (d, [(ERROR, ''Failed to log governance action: '' @ e), (ERROR, msg @ e)])"
  by (simp add: audit_guard_def log_governance_action_def)

lemma ex_db_facts:
  "models (ex_db rs ds) 1 = Some ex_model"
  "active_policy (ex_db rs ds) = Some ex_policy"
  "latest_risk (ex_db rs ds) 1 = Some \<lparr>rh_model_id = 1, risk_score = rs, drift_component = 0,
                    fairness_component = 0, rh_timestamp = 1\<rparr>"
  "(case latest_fairness (ex_db rs ds) 1 of None \<Rightarrow> 0 | Some f \<Rightarrow> disparity_score f) = ds"
  by (simp_all add: ex_db_def ex_policy_def active_policy_def first_row_def latest_risk_def
        latest_fairness_def order_by_desc_def)

lemma ex_eval_blocked:
  "status (fst (evaluate_model_governance (\<lambda>x. ''?'') (ex_db 95 (1 / 20)) 1)) = ''blocked''"
  "reason (fst (evaluate_model_governance (\<lambda>x. ''?'') (ex_db 95 (1 / 20)) 1)) =
     ''Risk score ? exceeds max allowed ?''"
  by (simp_all add: evaluate_model_governance_def ex_db_facts Let_def ex_policy_def)

text \<open>
  The latest row is a stored row of the model, and no row of the model is more recent.
\<close>

lemma first_row_order_by_desc:
  assumes "first_row (order_by_desc k xs) = Some x"
  shows "x \<in> set xs \<and> (\<forall>y \<in> set xs. k y \<le> k x)"
proof -
  obtain ys where ys: "order_by_desc k xs = x # ys"
    using assms by (auto simp: first_row_def split: list.splits)
  have "sorted (map (\<lambda>x. - k x) (order_by_desc k xs))"
    by (simp add: order_by_desc_def)
  then have "\<forall>y \<in> set (x # ys). k y \<le> k x"
    unfolding ys by auto
  moreover have "set (x # ys) = set xs"
    using ys by (metis order_by_desc_def set_sort)
  ultimately show ?thesis by auto
qed

lemma latest_risk_is_latest:
  assumes "latest_risk d model_id = Some r"
  shows "r \<in> set (risk_rows d) \<and> rh_model_id r = model_id
       \<and> (\<forall>r' \<in> set (risk_rows d). rh_model_id r' = model_id \<longrightarrow> rh_timestamp r' \<le> rh_timestamp r)"
  using first_row_order_by_desc [OF assms [unfolded latest_risk_def]] by auto

lemma sort_key_Nil_iff: "sort_key k xs = [] \<longleftrightarrow> xs = []"
  by (metis length_sort length_0_conv)

lemma latest_risk_none:
  "latest_risk d model_id = None \<longleftrightarrow> (\<forall>r \<in> set (risk_rows d). rh_model_id r \<noteq> model_id)"
  by (auto simp: latest_risk_def order_by_desc_def sort_key_Nil_iff filter_empty_conv)

lemma latest_fairness_is_latest:
  assumes "latest_fairness d model_id = Some f"
  shows "f \<in> set (fairness_rows d) \<and> fm_model_id f = model_id
       \<and> (\<forall>f' \<in> set (fairness_rows d). fm_model_id f' = model_id \<longrightarrow> fm_timestamp f' \<le> fm_timestamp f)"
  using first_row_order_by_desc [OF assms [unfolded latest_fairness_def]] by auto

lemma latest_fairness_none:
  "latest_fairness d model_id = None \<longleftrightarrow> (\<forall>f \<in> set (fairness_rows d). fm_model_id f \<noteq> model_id)"
  by (auto simp: latest_fairness_def order_by_desc_def sort_key_Nil_iff filter_empty_conv)

text \<open>
  Claim C2. For a registered model and an active policy, the evaluator takes the latest
  risk score and the latest disparity score (0 where the model has no row) and applies
  the rules in this order: risk above \<open>max_allowed_mri\<close> gives \<open>blocked\<close>; otherwise
  disparity above \<open>max_allowed_disparity\<close> gives \<open>at_risk\<close> with the fairness reason;
  otherwise risk above \<open>approval_required_above_mri\<close> gives \<open>at_risk\<close> with the soft-gate
  reason; otherwise \<open>approved\<close>. So the hard block wins over the soft gate, and the
  fairness check comes before the soft gate.
\<close>

theorem evaluate_rule_order:
  assumes "models d model_id = Some model" and "active_policy d = Some policy"
    and "rs = (case latest_risk d model_id of None \<Rightarrow> 0 | Some r \<Rightarrow> risk_score r)"
    and "ds = (case latest_fairness d model_id of None \<Rightarrow> 0 | Some f \<Rightarrow> disparity_score f)"
  shows "status (fst (evaluate_model_governance fmt d model_id)) =
           (if rs > max_allowed_mri policy then ''blocked''
            else if ds > max_allowed_disparity policy then ''at_risk''
            else if rs > approval_required_above_mri policy then ''at_risk''
            else ''approved'')
       \<and> reason (fst (evaluate_model_governance fmt d model_id)) =
           (if rs > max_allowed_mri policy then
              ''Risk score '' @ fmt rs @ '' exceeds max allowed '' @ fmt (max_allowed_mri policy)
            else if ds > max_allowed_disparity policy then
              ''Disparity '' @ fmt ds @ '' exceeds max allowed ''
                @ fmt (max_allowed_disparity policy)
            else if rs > approval_required_above_mri policy then
              ''Risk score '' @ fmt rs @ '' requires approval (threshold ''
                @ fmt (approval_required_above_mri policy) @ '')''
            else ''All governance checks passed'')"
  using assms by (simp add: evaluate_model_governance_def Let_def)

text \<open>
  The four examples of the specification: (95, 0.05) is blocked although 95 is also above
  the soft gate, (70, 0.20) is at risk for fairness, (65, 0.05) is at risk for the soft
  gate, (40, 0.05) is approved.
\<close>

theorem evaluate_rule_order_witness:
  "status (fst (evaluate_model_governance (\<lambda>x. ''?'') (ex_db 95 (1 / 20)) 1)) = ''blocked''
   \<and> reason (fst (evaluate_model_governance (\<lambda>x. ''?'') (ex_db 70 (1 / 5)) 1)) =
        ''Disparity ? exceeds max allowed ?''
   \<and> reason (fst (evaluate_model_governance (\<lambda>x. ''?'') (ex_db 65 (1 / 20)) 1)) =
        ''Risk score ? requires approval (threshold ?)''
   \<and> status (fst (evaluate_model_governance (\<lambda>x. ''?'') (ex_db 40 (1 / 20)) 1)) = ''approved''"
  using evaluate_rule_order [of "ex_db 95 (1 / 20)" 1 ex_model ex_policy 95 "1 / 20" "\<lambda>x. ''?''"]
        evaluate_rule_order [of "ex_db 70 (1 / 5)" 1 ex_model ex_policy 70 "1 / 5" "\<lambda>x. ''?''"]
        evaluate_rule_order [of "ex_db 65 (1 / 20)" 1 ex_model ex_policy 65 "1 / 20" "\<lambda>x. ''?''"]
        evaluate_rule_order [of "ex_db 40 (1 / 20)" 1 ex_model ex_policy 40 "1 / 20" "\<lambda>x. ''?''"]
  by (simp add: ex_db_facts ex_policy_def)

text \<open>
  Claim C7. With no active policy the evaluator returns the stored status of the model
  (a status column holds one of the non-empty status names) with the reason
  \<open>No active policy\<close>, raises nothing, and returns the session as it was: no table, and
  in particular no status, is written.
\<close>

theorem no_active_policy_unchanged:
  assumes "models d model_id = Some model" and "active_policy d = None"
    and "mr_status model \<noteq> []"
  shows "evaluate_model_governance fmt d model_id =
           (\<lparr>status = mr_status model, reason = ''No active policy'',
             gr_risk_score = None, gr_disparity_score = None\<rparr>, d)"
  using assms by (simp add: evaluate_model_governance_def)

theorem no_active_policy_unchanged_witness:
  "evaluate_model_governance (\<lambda>x. ''?'') ex_db_no_policy 1 =
     (\<lparr>status = ''approved'', reason = ''No active policy'',
       gr_risk_score = None, gr_disparity_score = None\<rparr>, ex_db_no_policy)"
  using no_active_policy_unchanged [of ex_db_no_policy 1 "ex_model\<lparr>mr_status := ''approved''\<rparr>"
          "\<lambda>x. ''?''"]
  by (simp add: ex_db_no_policy_def active_policy_def first_row_def ex_model_def)

text \<open>The fallback of the same branch: an empty stored status is reported as \<open>draft\<close>.\<close>

lemma no_active_policy_empty_status:
  assumes "models d model_id = Some model" and "active_policy d = None"
    and "mr_status model = []"
  shows "evaluate_model_governance fmt d model_id =
           (\<lparr>status = ''draft'', reason = ''No active policy'',
             gr_risk_score = None, gr_disparity_score = None\<rparr>, d)"
  using assms by (simp add: evaluate_model_governance_def)

text \<open>
  Claim C1. Whenever the evaluation at the start of a deployment attempt yields
  \<open>blocked\<close>, the gate answers 403 with the hard-block message, for every value of the
  override flag, every user, every time and every outcome of the audit write; the model
  table is the one the evaluation left, and the model's status in it is \<open>blocked\<close>, not
  \<open>deployed\<close>.
\<close>

theorem blocked_never_deploys:
  assumes "status (fst (evaluate_model_governance fmt d model_id)) = ''blocked''"
  shows "fst (deploy_model fmt failure now d model_id override user_id) =
           Inl (HTTPException 403
                 (''Deployment blocked: '' @ reason (fst (evaluate_model_governance fmt d model_id))
                    @ '' (Override not permitted for hard blocks)''))
         \<and> models (fst (snd (deploy_model fmt failure now d model_id override user_id))) =
             models (snd (evaluate_model_governance fmt d model_id))
         \<and> (\<exists>m. models (fst (snd (deploy_model fmt failure now d model_id override user_id)))
                   model_id = Some m \<and> mr_status m = ''blocked'' \<and> mr_status m \<noteq> ''deployed'')"
proof -
  obtain model where m: "models d model_id = Some model"
    using assms by (cases "models d model_id") (auto simp: evaluate_model_governance_def)
  obtain g d1 where e: "evaluate_model_governance fmt d model_id = (g, d1)"
    by (cases "evaluate_model_governance fmt d model_id")
  have st: "status g = ''blocked''" using assms e by simp
  have stored: "\<exists>m. models d1 model_id = Some m \<and> mr_status m = ''blocked''"
    using e st m
    by (auto simp: evaluate_model_governance_def Let_def split: option.splits if_splits)
  show ?thesis
    using m e st stored
    by (auto simp add: deploy_model_def Let_def split_beta audit_guard_models)
qed

theorem blocked_never_deploys_witness:
  "fst (deploy_model (\<lambda>x. ''?'') None 7 (ex_db 95 (1 / 20)) 1 True 3) =
     Inl (HTTPException 403
       ''Deployment blocked: Risk score ? exceeds max allowed ? (Override not permitted for hard blocks)'')"
  using blocked_never_deploys [OF ex_eval_blocked(1), of None 7 True 3]
  by (simp add: ex_eval_blocked(2))

text \<open>
  Claim C6. For a registered model, every branch of the gate (blocked, at risk without
  override, allow) calls the Audit Recorder exactly once: when the write succeeds the
  audit table has grown by exactly one row and no error line is logged; when the write
  fails with message \<open>e\<close> the audit table is unchanged and exactly two error lines are
  logged, the recorder's and the caller's. The answer of the gate and the model table are
  the same in both cases.
\<close>

theorem audit_failure_never_changes_decision:
  assumes "models d model_id = Some model"
    and "deploy_model fmt None now d model_id override user_id = (r0, d0, ls0)"
    and "deploy_model fmt (Some e) now d model_id override user_id = (r1, d1, ls1)"
  shows "r1 = r0 \<and> models d1 = models d0
       \<and> length (audit_logs d0) = length (audit_logs d) + 1
       \<and> filter (\<lambda>l. fst l = ERROR) ls0 = []
       \<and> audit_logs d1 = audit_logs d
       \<and> (\<exists>msg. filter (\<lambda>l. fst l = ERROR) ls1 =
              [(ERROR, ''Failed to log governance action: '' @ e), (ERROR, msg @ e)])"
proof -
  obtain g dd where ev: "evaluate_model_governance fmt d model_id = (g, dd)"
    by (cases "evaluate_model_governance fmt d model_id")
  have al: "audit_logs dd = audit_logs d"
    using ev assms(1)
    by (auto simp: evaluate_model_governance_def Let_def split: option.splits if_splits)
  show ?thesis
    using assms ev al
    by (auto simp add: deploy_model_def Let_def split_beta audit_guard_failure
          audit_guard_def log_governance_action_def split: if_splits)
qed

theorem audit_failure_never_changes_decision_witness:
  "fst (deploy_model (\<lambda>x. ''?'') (Some ''db down'') 7 (ex_db 40 (1 / 20)) 1 False 3) =
     fst (deploy_model (\<lambda>x. ''?'') None 7 (ex_db 40 (1 / 20)) 1 False 3)
   \<and> length (audit_logs (fst (snd
        (deploy_model (\<lambda>x. ''?'') None 7 (ex_db 40 (1 / 20)) 1 False 3)))) = 1
   \<and> audit_logs (fst (snd
        (deploy_model (\<lambda>x. ''?'') (Some ''db down'') 7 (ex_db 40 (1 / 20)) 1 False 3))) = []"
  using audit_failure_never_changes_decision [of "ex_db 40 (1 / 20)" 1 ex_model "\<lambda>x. ''?''" 7
          False 3
          "fst (deploy_model (\<lambda>x. ''?'') None 7 (ex_db 40 (1 / 20)) 1 False 3)"
          "fst (snd (deploy_model (\<lambda>x. ''?'') None 7 (ex_db 40 (1 / 20)) 1 False 3))"
          "snd (snd (deploy_model (\<lambda>x. ''?'') None 7 (ex_db 40 (1 / 20)) 1 False 3))"
          "''db down''"
          "fst (deploy_model (\<lambda>x. ''?'') (Some ''db down'') 7 (ex_db 40 (1 / 20)) 1 False 3)"
          "fst (snd (deploy_model (\<lambda>x. ''?'') (Some ''db down'') 7 (ex_db 40 (1 / 20)) 1 False 3))"
          "snd (snd (deploy_model (\<lambda>x. ''?'') (Some ''db down'') 7 (ex_db 40 (1 / 20)) 1 False 3))"]
  by (simp add: ex_db_facts) (simp add: ex_db_def)

section \<open>Properties of the Risk Composer\<close>

lemma round_half_even_bounds:
  assumes "0 \<le> x" and "x \<le> of_int n"
  shows "0 \<le> round_half_even x \<and> round_half_even x \<le> n"
proof (cases "\<lfloor>x\<rfloor> = n")
  case True
  then have "x - of_int \<lfloor>x\<rfloor> \<le> 0" using assms(2) by simp
  then have "round_half_even x = \<lfloor>x\<rfloor>" by (simp add: round_half_even_def Let_def)
  moreover have "0 \<le> \<lfloor>x\<rfloor>" using assms(1) by simp
  ultimately show ?thesis using True by simp
next
  case False
  have "\<lfloor>x\<rfloor> \<le> n" using assms(2) by (simp add: floor_le_iff)
  then have "\<lfloor>x\<rfloor> + 1 \<le> n" using False by simp
  moreover have "0 \<le> \<lfloor>x\<rfloor>" using assms(1) by simp
  moreover have "round_half_even x = \<lfloor>x\<rfloor> \<or> round_half_even x = \<lfloor>x\<rfloor> + 1"
    by (simp add: round_half_even_def Let_def)
  ultimately show ?thesis by auto
qed

lemma py_round2_bounds:
  assumes "0 \<le> x" and "x \<le> 100"
  shows "0 \<le> py_round x 2 \<and> py_round x 2 \<le> 100"
proof -
  have "0 \<le> x * 100" "x * 100 \<le> of_int 10000" using assms by simp_all
  from round_half_even_bounds [OF this]
  have "0 \<le> round_half_even (x * 100)" "round_half_even (x * 100) \<le> 10000" by simp_all
  then have "0 \<le> (of_int (round_half_even (x * 100)) :: real)"
            "(of_int (round_half_even (x * 100)) :: real) \<le> 10000"
    by simp_all
  then show ?thesis by (simp add: py_round_def divide_le_eq)
qed

text \<open>
  Claim C3. The row that \<^verbatim>\<open>create_risk_history_entry\<close> creates and appends satisfies
  \<open>risk_score = round(clamp(drift_component * 0.6 + fairness_component * 0.4, 0, 100), 2)\<close>
  for its own components, whatever the stored drift and fairness rows are; the score lies
  between 0 and 100.
\<close>

theorem risk_row_formula:
  "risk_score (fst (create_risk_history_entry now d model_id)) =
     spec_risk_score (drift_component (fst (create_risk_history_entry now d model_id)))
                     (fairness_component (fst (create_risk_history_entry now d model_id)))
   \<and> risk_rows (snd (create_risk_history_entry now d model_id)) =
       risk_rows d @ [fst (create_risk_history_entry now d model_id)]
   \<and> 0 \<le> risk_score (fst (create_risk_history_entry now d model_id))
   \<and> risk_score (fst (create_risk_history_entry now d model_id)) \<le> 100"
  using py_round2_bounds [of "min 100 (max 0 (calculate_drift_component d model_id * (6 / 10)
            + calculate_fairness_component d model_id * (4 / 10)))"]
  by (simp add: create_risk_history_entry_def calculate_mri_score_def spec_risk_score_def Let_def)

text \<open>The formula at the boundary values of the components.\<close>

lemma spec_risk_score_boundary:
  "spec_risk_score 0 0 = 0" "spec_risk_score 100 100 = 100"
  "spec_risk_score 100 0 = 60" "spec_risk_score 0 100 = 40"
  by (simp_all add: spec_risk_score_def py_round_def round_half_even_def Let_def)

section \<open>Properties of the Drift Calculator\<close>

lemma map2_same: "map2 f xs xs = map (\<lambda>x. f x x) xs"
  by (induction xs) simp_all

lemma float_overflow_0: "\<not> float_overflow 0"
  by (simp add: float_overflow_def)

lemma psi_self_zero:
  assumes "\<not> float_overflow (Max (set A) - Min (set A))"
  shows "calculate_psi A A bins = Inr 0"
  using assms by (simp add: calculate_psi_def Let_def map2_same)

lemma ks_self_zero: "calculate_ks_statistic A A = 0"
proof (cases "A = []")
  case True
  then show ?thesis by (simp add: calculate_ks_statistic_def)
next
  case False
  then have "(\<lambda>t. \<bar>ecdf A t - ecdf A t\<bar>) ` set (A @ A) = {0}"
    by (cases A) auto
  then show ?thesis using False by (simp add: calculate_ks_statistic_def ks_2samp_def)
qed




lemma drift_missing_model:
  "models d model_id = None \<Longrightarrow> calculate_drift_for_model parse cfg now d model_id = Inr ([], d)"
  by (simp add: calculate_drift_for_model_def)

lemma drift_loop_skip:
  assumes "get_baseline_data parse d model_id f = Inr b"
    and "get_recent_data parse (DRIFT_WINDOW_SIZE cfg) d model_id f = Inr r"
    and "length b < 10 \<or> length r < 10"
  shows "drift_loop parse cfg now k d model_id (f # fs) = drift_loop parse cfg now k d model_id fs"
  using assms by auto

lemma drift_row_name [simp]: "feature_name (drift_row cfg ts model_id f psi ks) = f"
  by (simp add: drift_row_def)

lemma drift_loop_rows:
  assumes "drift_loop parse cfg now k d model_id fs = Inr ms"
    and "get_baseline_data parse d model_id f = Inr b"
    and "get_recent_data parse (DRIFT_WINDOW_SIZE cfg) d model_id f = Inr r"
  shows "length (filter (\<lambda>m. feature_name m = f) ms) =
           (if 10 \<le> length b \<and> 10 \<le> length r then count_list fs f else 0)"
  using assms(1)
proof (induction fs arbitrary: ms k)
  case Nil
  then show ?case by simp
next
  case (Cons g gs)
  show ?case
  proof (cases "g = f")
    case True
    with Cons assms(2,3) show ?thesis
      by (auto split: sum.splits if_splits)
  next
    case False
    with Cons show ?thesis
      by (auto split: sum.splits if_splits)
  qed
qed

lemma extract_values_total:
  assumes "\<forall>l \<in> set logs. \<forall>v. map_of (input_features l) f = Some v
             \<longrightarrow> py_float parse v \<noteq> Inl OverflowError"
  shows "\<exists>xs. extract_values parse f logs = Inr xs"
  using assms
proof (induction logs)
  case Nil
  then show ?case by simp
next
  case (Cons l ls)
  then obtain xs where xs: "extract_values parse f ls = Inr xs" by auto
  show ?case
  proof (cases "map_of (input_features l) f")
    case None
    then show ?thesis using xs by auto
  next
    case (Some v)
    then have "py_float parse v \<noteq> Inl OverflowError" using Cons.prems by simp
    then show ?thesis using Some xs
      by (cases "py_float parse v") (auto split: py_error.splits)
  qed
qed

text \<open>
  Claim C8 says that the drift run never raises. The run does return, with an empty list
  and the session untouched, when the model does not exist (\<open>drift_missing_model\<close>), and a
  feature with fewer than 10 baseline or recent values yields no row
  (\<open>drift_loop_skip\<close>, \<open>drift_short_feature_omitted\<close>). But \<^verbatim>\<open>float\<close> of an integer beyond
  the range of a float raises \<^verbatim>\<open>OverflowError\<close>, which the handler
  \<^verbatim>\<open>except (ValueError, TypeError)\<close> does not catch: on a model with the single log
  \<^verbatim>\<open>{"amount": 2**1024}\<close> the run raises.
\<close>

theorem drift_raises_on_oversized_int:
  "calculate_drift_for_model (\<lambda>s. None) default_settings (\<lambda>k. 5) ex_overflow_db 1
     = Inl OverflowError"
proof -
  have "(2::int) ^ 1024 - 2 ^ 970 \<le> \<bar>2 ^ 1024\<bar>" by simp
  then have pf: "py_float (\<lambda>s. None) (PInt ex_big_int) = Inl OverflowError"
    unfolding py_float_def ex_big_int_def by (simp only: pyval.case if_True)
  show ?thesis
    by (simp add: calculate_drift_for_model_def ex_overflow_db_def features_to_monitor_def
          model_logs_def first_row_def get_baseline_data_def baseline_logs_def order_by_asc_def pf)
qed

lemma drift_run_rows:
  assumes "calculate_drift_for_model parse cfg now d model_id = Inr (ms, d')"
  shows "d' = d\<lparr>drift_rows := drift_rows d @ ms\<rparr>"
  using assms
  by (auto simp: calculate_drift_for_model_def split: option.splits sum.splits)

lemma drift_run_loop:
  assumes "models d model_id = Some model"
    and "calculate_drift_for_model parse cfg now d model_id = Inr (ms, d')"
  shows "drift_loop parse cfg now 0 d model_id (features_to_monitor d model_id) = Inr ms"
  using assms
  by (auto simp: calculate_drift_for_model_def split: sum.splits)

lemma get_baseline_data_extract:
  "models d model_id = Some model \<Longrightarrow>
   get_baseline_data parse d model_id f = extract_values parse f (baseline_logs d model_id)"
  by (simp add: get_baseline_data_def)

lemma get_recent_data_extract:
  "get_recent_data parse w d model_id f = extract_values parse f (recent_logs w d model_id)"
  by (simp add: get_recent_data_def)

lemma extract_key_precedence:
  "extract_values parse ''prediction'' (map (overwrite_score g) logs) =
     extract_values parse ''prediction'' logs"
  by (induction logs)
     (auto simp: overwrite_score_def split: option.splits sum.splits py_error.splits)

lemma extract_prediction_values:
  "extract_values parse ''prediction'' logs = Inr xs \<Longrightarrow>
   xs = List.map_filter (prediction_value parse) logs"
proof (induction logs arbitrary: xs)
  case Nil
  then show ?case by (simp add: List.map_filter_simps)
next
  case (Cons l ls)
  show ?case
  proof (cases "map_of (input_features l) ''prediction''")
    case None
    then show ?thesis
      using Cons by (auto simp: List.map_filter_simps prediction_value_def split: sum.splits)
  next
    case (Some v)
    then show ?thesis
      using Cons
      by (auto simp: List.map_filter_simps prediction_value_def
            split: sum.splits py_error.splits)
  qed
qed

lemma count_list_distinct: "distinct xs \<Longrightarrow> x \<in> set xs \<Longrightarrow> count_list xs x = 1"
  by (induction xs) (auto simp: count_list_0_iff)

lemma count_prediction:
  assumes "first_row (model_logs d model_id) = Some sample_log"
    and "''prediction'' \<in> fst ` set (input_features sample_log)"
    and "distinct (map fst (input_features sample_log))"
  shows "count_list (features_to_monitor d model_id) ''prediction'' = 2"
proof -
  have "count_list (map fst (input_features sample_log)) ''prediction'' = 1"
    using assms(2,3) by (simp add: count_list_distinct)
  then show ?thesis using assms(1) by (simp add: features_to_monitor_def)
qed

text \<open>
  Claim C10, as the code has it. When the first stored log of a registered model has an
  input feature named \<^verbatim>\<open>prediction\<close>, the feature list holds that name twice, and a run
  that returns has two rows of that name when both samples have at least 10 values, and
  none otherwise. Each sample is made of what the logs of its window contribute: a log
  that has the key contributes the value under the key, never its stored prediction
  score (overwriting the stored scores of such logs leaves both samples as they are), and
  a log that lacks the key contributes its stored score.
\<close>

theorem prediction_feature_monitored_twice:
  assumes "models d model_id = Some model"
    and "first_row (model_logs d model_id) = Some sample_log"
    and "''prediction'' \<in> fst ` set (input_features sample_log)"
    and "distinct (map fst (input_features sample_log))"
    and "calculate_drift_for_model parse cfg now d model_id = Inr (ms, d')"
    and "get_baseline_data parse d model_id ''prediction'' = Inr b"
    and "get_recent_data parse (DRIFT_WINDOW_SIZE cfg) d model_id ''prediction'' = Inr r"
  shows "count_list (features_to_monitor d model_id) ''prediction'' = 2
       \<and> length (filter (\<lambda>m. feature_name m = ''prediction'') ms) =
           (if 10 \<le> length b \<and> 10 \<le> length r then 2 else 0)
       \<and> b = List.map_filter (prediction_value parse) (baseline_logs d model_id)
       \<and> r = List.map_filter (prediction_value parse)
               (recent_logs (DRIFT_WINDOW_SIZE cfg) d model_id)
       \<and> extract_values parse ''prediction'' (map (overwrite_score g) (baseline_logs d model_id))
           = Inr b
       \<and> extract_values parse ''prediction''
             (map (overwrite_score g) (recent_logs (DRIFT_WINDOW_SIZE cfg) d model_id)) = Inr r"
proof -
  have c: "count_list (features_to_monitor d model_id) ''prediction'' = 2"
    using assms(2,3,4) by (rule count_prediction)
  have "length (filter (\<lambda>m. feature_name m = ''prediction'') ms) =
           (if 10 \<le> length b \<and> 10 \<le> length r
            then count_list (features_to_monitor d model_id) ''prediction'' else 0)"
    using drift_run_loop [OF assms(1,5)] assms(6,7) by (rule drift_loop_rows)
  then have f: "length (filter (\<lambda>m. feature_name m = ''prediction'') ms) =
           (if 10 \<le> length b \<and> 10 \<le> length r then 2 else 0)"
    by (simp add: c)
  have xb: "extract_values parse ''prediction'' (baseline_logs d model_id) = Inr b"
    using assms(6) by (simp add: get_baseline_data_extract [OF assms(1)])
  have xr: "extract_values parse ''prediction''
              (recent_logs (DRIFT_WINDOW_SIZE cfg) d model_id) = Inr r"
    using assms(7) by (simp add: get_recent_data_extract)
  have vb: "b = List.map_filter (prediction_value parse) (baseline_logs d model_id)"
    using xb by (rule extract_prediction_values)
  have vr: "r = List.map_filter (prediction_value parse)
                  (recent_logs (DRIFT_WINDOW_SIZE cfg) d model_id)"
    using xr by (rule extract_prediction_values)
  have eb: "extract_values parse ''prediction'' (map (overwrite_score g) (baseline_logs d model_id))
           = Inr b"
    using xb by (simp add: extract_key_precedence)
  have er: "extract_values parse ''prediction''
             (map (overwrite_score g) (recent_logs (DRIFT_WINDOW_SIZE cfg) d model_id)) = Inr r"
    using xr by (simp add: extract_key_precedence)
  show ?thesis using c f vb vr eb er by blast
qed

lemma insort_replicate: "insort_key k x (replicate n x) = replicate (Suc n) x"
  by (induction n) simp_all

lemma sort_key_replicate: "sort_key k (replicate n x) = replicate n x"
  by (induction n) (simp_all add: insort_replicate)

lemma ex_pred_logs:
  "model_logs (ex_pred_db n) 1 = replicate n ex_pred_log"
  "baseline_logs (ex_pred_db n) 1 = replicate (min 100 n) ex_pred_log"
  "recent_logs 100 (ex_pred_db n) 1 = replicate (min 100 n) ex_pred_log"
  by (simp_all add: model_logs_def baseline_logs_def recent_logs_def ex_pred_db_def
        ex_pred_log_def order_by_asc_def order_by_desc_def sort_key_replicate)

lemma extract_ex_pred:
  "extract_values parse ''prediction'' (replicate n ex_pred_log) = Inr (replicate n (3 / 10))"
  by (induction n) (simp_all add: ex_pred_log_def py_float_def)

lemma ex_pred_model: "models (ex_pred_db n) 1 = Some ex_model"
  by (simp add: ex_pred_db_def)

lemma ex_pred_samples:
  "get_baseline_data parse (ex_pred_db n) 1 ''prediction'' = Inr (replicate (min 100 n) (3 / 10))"
  "get_recent_data parse 100 (ex_pred_db n) 1 ''prediction'' = Inr (replicate (min 100 n) (3 / 10))"
  by (simp_all add: get_baseline_data_def get_recent_data_def ex_pred_logs extract_ex_pred
        ex_pred_model)

lemma ex_pred_features:
  "0 < n \<Longrightarrow> features_to_monitor (ex_pred_db n) 1 = [''prediction'', ''prediction'']"
  by (cases n) (simp_all add: features_to_monitor_def ex_pred_logs first_row_def ex_pred_log_def)

lemma ex_pred_drift_rows: "drift_rows (ex_pred_db n) = []"
  by (simp add: ex_pred_db_def)

lemma ex_pred_psi:
  "calculate_psi (replicate n (3 / 10)) (replicate n (3 / 10)) 10 = Inr 0"
proof (cases "n = 0")
  case True
  then show ?thesis by (simp add: calculate_psi_def)
next
  case False
  then have "set (replicate n (3 / 10 :: real)) = {3 / 10}"
    by (rule set_replicate)
  then have "Max (set (replicate n (3 / 10 :: real))) - Min (set (replicate n (3 / 10))) = 0"
    by simp
  then show ?thesis by (simp add: psi_self_zero float_overflow_0)
qed

lemma ex_pred_run:
  assumes "0 < n"
  shows "calculate_drift_for_model parse default_settings now (ex_pred_db n) 1 =
           Inr (if 10 \<le> n
                then [drift_row default_settings (now 0) 1 ''prediction'' 0 0,
                      drift_row default_settings (now 1) 1 ''prediction'' 0 0]
                else [],
                (ex_pred_db n)\<lparr>drift_rows :=
                   if 10 \<le> n
                   then [drift_row default_settings (now 0) 1 ''prediction'' 0 0,
                         drift_row default_settings (now 1) 1 ''prediction'' 0 0]
                   else []\<rparr>)"
proof -
  have w: "DRIFT_WINDOW_SIZE default_settings = 100" by (simp add: default_settings_def)
  show ?thesis
    by (auto simp add: calculate_drift_for_model_def ex_pred_model ex_pred_features [OF assms]
          ex_pred_samples w ex_pred_drift_rows ex_pred_psi ks_self_zero)
qed

lemma ex_mixed_logs:
  "model_logs ex_mixed_db 1 = prediction_logs ex_mixed_db"
  "baseline_logs ex_mixed_db 1 = prediction_logs ex_mixed_db"
  by (simp_all add: model_logs_def baseline_logs_def order_by_asc_def ex_mixed_db_def)

text \<open>
  Claim C10 as stated fails. With a single log whose input features are
  \<^verbatim>\<open>{"prediction": 0.3}\<close> the name is monitored twice, yet the run creates no row, since
  the samples have one value each. With two logs of which only the second has the key,
  the logs contain the feature, yet the name is monitored once (the list comes from the
  first log), and the baseline sample holds the stored score 0.9 of the first log next to
  the value 0.3 under the key of the second.
\<close>

theorem prediction_claim_fails:
  "first_row (model_logs (ex_pred_db 1) 1) = Some ex_pred_log
   \<and> map fst (input_features ex_pred_log) = [''prediction'']
   \<and> features_to_monitor (ex_pred_db 1) 1 = [''prediction'', ''prediction'']
   \<and> calculate_drift_for_model (\<lambda>s. None) default_settings (\<lambda>k. 5) (ex_pred_db 1) 1
       = Inr ([], ex_pred_db 1)
   \<and> map (map fst \<circ> input_features) (model_logs ex_mixed_db 1) = [[''age''], [''prediction'']]
   \<and> features_to_monitor ex_mixed_db 1 = [''age'', ''prediction'']
   \<and> get_baseline_data (\<lambda>s. None) ex_mixed_db 1 ''prediction'' = Inr [9 / 10, 3 / 10]"
proof -
  have "(ex_pred_db 1)\<lparr>drift_rows := []\<rparr> = ex_pred_db 1"
    by (simp add: ex_pred_db_def)
  then have "calculate_drift_for_model (\<lambda>s. None) default_settings (\<lambda>k. 5) (ex_pred_db 1) 1
       = Inr ([], ex_pred_db 1)"
    using ex_pred_run [of 1 "\<lambda>s. None" "\<lambda>k. 5"] by simp
  moreover have "first_row (model_logs (ex_pred_db 1) 1) = Some ex_pred_log"
    using ex_pred_logs(1) [of 1] by (simp add: first_row_def)
  moreover have "map fst (input_features ex_pred_log) = [''prediction'']"
    by (simp add: ex_pred_log_def)
  moreover have "features_to_monitor (ex_pred_db 1) 1 = [''prediction'', ''prediction'']"
    by (rule ex_pred_features) simp
  moreover have "map (map fst \<circ> input_features) (model_logs ex_mixed_db 1)
                   = [[''age''], [''prediction'']]"
    unfolding ex_mixed_logs by (simp add: ex_mixed_db_def)
  moreover have "features_to_monitor ex_mixed_db 1 = [''age'', ''prediction'']"
    unfolding features_to_monitor_def ex_mixed_logs
    by (simp add: ex_mixed_db_def first_row_def)
  moreover have "get_baseline_data (\<lambda>s. None) ex_mixed_db 1 ''prediction'' = Inr [9 / 10, 3 / 10]"
    unfolding get_baseline_data_def ex_mixed_logs
    by (simp add: ex_mixed_db_def py_float_def)
  ultimately show ?thesis by blast
qed

text \<open>
  With ten logs that have the key the run creates the two rows (stamped with successive
  readings of the clock).
\<close>

theorem prediction_feature_monitored_twice_witness:
  "count_list (features_to_monitor (ex_pred_db 10) 1) ''prediction'' = 2
   \<and> map feature_name (fst (projr
        (calculate_drift_for_model (\<lambda>s. None) default_settings (\<lambda>k. 5 + int k) (ex_pred_db 10) 1)))
       = [''prediction'', ''prediction'']
   \<and> length (filter (\<lambda>m. feature_name m = ''prediction'') (fst (projr
        (calculate_drift_for_model (\<lambda>s. None) default_settings (\<lambda>k. 5 + int k) (ex_pred_db 10) 1)))) = 2
   \<and> get_baseline_data (\<lambda>s. None) (ex_pred_db 10) 1 ''prediction'' = Inr (replicate 10 (3 / 10))"
proof -
  let ?b = "replicate (min 100 10) (3 / 10 :: real)"
  let ?ms = "[drift_row default_settings 5 1 ''prediction'' 0 0,
              drift_row default_settings 6 1 ''prediction'' 0 0]"
  have run: "calculate_drift_for_model (\<lambda>s. None) default_settings (\<lambda>k. 5 + int k) (ex_pred_db 10) 1 =
        Inr (?ms, (ex_pred_db 10)\<lparr>drift_rows := ?ms\<rparr>)"
    using ex_pred_run [of 10 "\<lambda>s. None" "\<lambda>k. 5 + int k"] by simp
  have h1: "models (ex_pred_db 10) 1 = Some ex_model" by (rule ex_pred_model)
  have h2: "first_row (model_logs (ex_pred_db 10) 1) = Some ex_pred_log"
    using ex_pred_logs(1) [of 10] by (simp add: first_row_def numeral_eq_Suc)
  have h3: "''prediction'' \<in> fst ` set (input_features ex_pred_log)"
    and h4: "distinct (map fst (input_features ex_pred_log))"
    by (simp_all add: ex_pred_log_def)
  have h6: "get_baseline_data (\<lambda>s. None) (ex_pred_db 10) 1 ''prediction'' = Inr ?b"
    by (rule ex_pred_samples)
  have h7: "get_recent_data (\<lambda>s. None) (DRIFT_WINDOW_SIZE default_settings) (ex_pred_db 10) 1
              ''prediction'' = Inr ?b"
    using ex_pred_samples(2) [of "\<lambda>s. None" 10] by (simp add: default_settings_def)
  note t = prediction_feature_monitored_twice [OF h1 h2 h3 h4 run h6 h7]
  have "count_list (features_to_monitor (ex_pred_db 10) 1) ''prediction'' = 2"
    using t by blast
  moreover have "length (filter (\<lambda>m. feature_name m = ''prediction'') ?ms) = 2"
    using t by simp
  moreover have "map feature_name ?ms = [''prediction'', ''prediction'']"
    by simp
  moreover have "get_baseline_data (\<lambda>s. None) (ex_pred_db 10) 1 ''prediction''
       = Inr (replicate 10 (3 / 10))"
    using h6 by simp
  ultimately show ?thesis unfolding run by simp
qed

lemma drift_short_feature_omitted:
  assumes "models d model_id = Some model"
    and "calculate_drift_for_model parse cfg now d model_id = Inr (ms, d')"
    and "get_baseline_data parse d model_id f = Inr b"
    and "get_recent_data parse (DRIFT_WINDOW_SIZE cfg) d model_id f = Inr r"
    and "length b < 10 \<or> length r < 10"
  shows "filter (\<lambda>m. feature_name m = f) ms = []
       \<and> drift_rows d' = drift_rows d @ ms"
proof -
  have "length (filter (\<lambda>m. feature_name m = f) ms) = 0"
    using drift_loop_rows [OF drift_run_loop [OF assms(1,2)] assms(3,4)] assms(5) by auto
  moreover have "drift_rows d' = drift_rows d @ ms"
    using drift_run_rows [OF assms(2)] by simp
  ultimately show ?thesis by simp
qed

section \<open>Properties of the simulation mode\<close>

text \<open>The gate refuses exactly on \<open>blocked\<close>, and on \<open>at_risk\<close> without override.\<close>

lemma deploy_allowed_iff:
  assumes "models d model_id = Some model"
  shows "isl (fst (deploy_model fmt failure now d model_id override user_id)) \<longleftrightarrow>
           (status (fst (evaluate_model_governance fmt d model_id)) = ''blocked''
            \<or> status (fst (evaluate_model_governance fmt d model_id)) = ''at_risk'' \<and> \<not> override)"
  using assms by (auto simp add: deploy_model_def Let_def split_beta)

text \<open>
  What the simulation computes. It tests the risk score against the hard ceiling, then
  \<open>100 - fairness_score\<close> against the fairness ceiling, then the risk score against the
  soft gate, and writes nothing: the endpoint returns the session it was given. On a model
  whose latest risk and disparity are these two values, \<open>would_pass\<close> is the answer of the
  Deployment Gate.
\<close>

lemma simulation_grades:
  assumes "models d model_id = Some model" and "active_policy d = Some policy"
    and "rs = (case latest_risk d model_id of None \<Rightarrow> 0 | Some r \<Rightarrow> risk_score r)"
    and "100 - fairness_score =
           (case latest_fairness d model_id of None \<Rightarrow> 0 | Some f \<Rightarrow> disparity_score f)"
    and "r = simulate_governance_check fmt rs fairness_score override policy"
  shows "compliance_grade r =
           (if rs > max_allowed_mri policy then ''F''
            else if 100 - fairness_score > max_allowed_disparity policy
                 then (if override then ''D'' else ''F'')
            else if rs > approval_required_above_mri policy
                 then (if override then ''C'' else ''B'')
            else ''A'')
       \<and> would_pass r =
           (if rs > max_allowed_mri policy then False
            else if 100 - fairness_score > max_allowed_disparity policy then override
            else if rs > approval_required_above_mri policy then override
            else True)
       \<and> would_pass r = (\<not> isl (fst (deploy_model fmt failure now d model_id override user_id)))
       \<and> check_governance_simulation fmt d rs fairness_score override =
           (Inr (r, policy_name policy), d,
            [(INFO, ''Governance simulation executed: risk='' @ fmt rs @ '', fairness=''
                    @ fmt fairness_score @ '', override='' @ str_bool override
                    @ '', result='' @ str_bool (would_pass r))])"
proof -
  have st: "status (fst (evaluate_model_governance fmt d model_id)) =
           (if rs > max_allowed_mri policy then ''blocked''
            else if 100 - fairness_score > max_allowed_disparity policy then ''at_risk''
            else if rs > approval_required_above_mri policy then ''at_risk''
            else ''approved'')"
    using assms(1-4) by (simp add: evaluate_model_governance_def Let_def)
  have g: "compliance_grade r =
           (if rs > max_allowed_mri policy then ''F''
            else if 100 - fairness_score > max_allowed_disparity policy
                 then (if override then ''D'' else ''F'')
            else if rs > approval_required_above_mri policy
                 then (if override then ''C'' else ''B'')
            else ''A'')"
    unfolding assms(5) by (simp add: simulate_governance_check_def Let_def)
  have w: "would_pass r =
           (if rs > max_allowed_mri policy then False
            else if 100 - fairness_score > max_allowed_disparity policy then override
            else if rs > approval_required_above_mri policy then override
            else True)"
    unfolding assms(5) by (simp add: simulate_governance_check_def Let_def)
  have dg: "would_pass r = (\<not> isl (fst (deploy_model fmt failure now d model_id override user_id)))"
    unfolding deploy_allowed_iff [OF assms(1)] st w by simp
  have c: "check_governance_simulation fmt d rs fairness_score override =
           (Inr (r, policy_name policy), d,
            [(INFO, ''Governance simulation executed: risk='' @ fmt rs @ '', fairness=''
                    @ fmt fairness_score @ '', override='' @ str_bool override
                    @ '', result='' @ str_bool (would_pass r))])"
    using assms(2) unfolding assms(5) by (simp add: check_governance_simulation_def Let_def)
  show ?thesis using g w dg c by blast
qed

text \<open>
  Claim C5 asks for grade \<open>F\<close> on every gate failure that is not overridden. At risk 65,
  fairness score 100, no override and the example policy only the soft gate fires and the
  request is denied (\<open>would_pass\<close> is false), yet the grade is \<open>B\<close>: the soft-gate branch
  returns \<^verbatim>\<open>"C" if would_pass else "B"\<close>, so a denied request is graded above the \<open>C\<close> of
  an overridden one, while the fairness branch next to it returns \<open>F\<close> for a denied
  request (here at fairness score 0).
\<close>

theorem soft_gate_without_override_not_F:
  "would_pass (simulate_governance_check (\<lambda>x. ''?'') 65 100 False ex_policy) = False
   \<and> compliance_grade (simulate_governance_check (\<lambda>x. ''?'') 65 100 False ex_policy) = ''B''
   \<and> compliance_grade (simulate_governance_check (\<lambda>x. ''?'') 65 100 False ex_policy) \<noteq> ''F''
   \<and> compliance_grade (simulate_governance_check (\<lambda>x. ''?'') 65 100 True ex_policy) = ''C''
   \<and> would_pass (simulate_governance_check (\<lambda>x. ''?'') 65 0 False ex_policy) = False
   \<and> compliance_grade (simulate_governance_check (\<lambda>x. ''?'') 65 0 False ex_policy) = ''F''"
  by (simp add: simulate_governance_check_def ex_policy_def Let_def)

text \<open>The simulation and the gate agree on an overridden soft gate.\<close>

lemma simulation_grades_example:
  "compliance_grade (simulate_governance_check (\<lambda>x. ''?'') 65 100 True ex_policy) = ''C''
   \<and> would_pass (simulate_governance_check (\<lambda>x. ''?'') 65 100 True ex_policy)
   \<and> \<not> isl (fst (deploy_model (\<lambda>x. ''?'') None 7 (ex_db 65 0) 1 True 3))"
proof -
  have h1: "models (ex_db 65 0) 1 = Some ex_model"
    and h2: "active_policy (ex_db 65 0) = Some ex_policy"
    by (simp_all add: ex_db_facts)
  have h3: "(65::real) = (case latest_risk (ex_db 65 0) 1 of None \<Rightarrow> 0 | Some r \<Rightarrow> risk_score r)"
    by (simp add: ex_db_facts)
  have h4: "100 - (100::real) =
      (case latest_fairness (ex_db 65 0) 1 of None \<Rightarrow> 0 | Some f \<Rightarrow> disparity_score f)"
    by (simp add: ex_db_facts)
  have m: "max_allowed_mri ex_policy = 80" "max_allowed_disparity ex_policy = 15 / 100"
    "approval_required_above_mri ex_policy = 60"
    by (simp_all add: ex_policy_def)
  show ?thesis
    using simulation_grades [OF h1 h2 h3 h4 refl, of "\<lambda>x. ''?''" True None 7 3]
    by (auto simp add: m)
qed

section \<open>Properties of the Fairness Calculator\<close>

lemma bump_keys:
  "map fst (bump_group g pos gs) = (if g \<in> fst ` set gs then map fst gs else map fst gs @ [g])"
  by (induction gs) (auto split: if_splits)

lemma bump_key_set: "fst ` set (bump_group g pos gs) = insert g (fst ` set gs)"
proof -
  have "set (map fst (bump_group g pos gs)) = insert g (set (map fst gs))"
    unfolding bump_keys by auto
  then show ?thesis by simp
qed

lemma bump_map_of:
  "map_of (bump_group g pos gs) k =
     (if k = g
      then Some (case map_of gs g of
                   None \<Rightarrow> (1, if pos then 1 else 0)
                 | Some (t, p) \<Rightarrow> (t + 1, if pos then p + 1 else p))
      else map_of gs k)"
  by (induction gs) auto

lemma bump_distinct: "distinct (map fst gs) \<Longrightarrow> distinct (map fst (bump_group g pos gs))"
  by (simp add: bump_keys)

lemma group_logs_Cons:
  "group_logs py_str attr (l # ls) gs =
     (case group_of py_str attr l of
        None \<Rightarrow> group_logs py_str attr ls gs
      | Some h \<Rightarrow> group_logs py_str attr ls (bump_group h (prediction l > 1 / 2) gs))"
  by (simp add: group_of_def split: option.splits)

lemma group_logs_distinct:
  "distinct (map fst gs) \<Longrightarrow> distinct (map fst (group_logs py_str attr logs gs))"
  by (induction logs arbitrary: gs) (auto simp: bump_distinct split: option.splits)

lemma observed_groups_Cons:
  "observed_groups py_str attr (l # ls) =
     (case group_of py_str attr l of
        None \<Rightarrow> observed_groups py_str attr ls
      | Some h \<Rightarrow> insert h (observed_groups py_str attr ls))"
  by (simp add: observed_groups_def List.map_filter_simps split: option.splits)

lemma group_logs_keys:
  "fst ` set (group_logs py_str attr logs gs) = fst ` set gs \<union> observed_groups py_str attr logs"
proof (induction logs arbitrary: gs)
  case Nil
  then show ?case by (simp add: observed_groups_def List.map_filter_simps)
next
  case (Cons l ls)
  show ?case
    unfolding group_logs_Cons observed_groups_Cons
    by (cases "group_of py_str attr l") (simp_all add: Cons bump_key_set)
qed

lemma total_of_Cons:
  "total_of py_str attr (l # ls) g =
     (if group_of py_str attr l = Some g then Suc (total_of py_str attr ls g)
      else total_of py_str attr ls g)"
  by (simp add: total_of_def)

lemma positive_of_Cons:
  "positive_of py_str attr (l # ls) g =
     (if group_of py_str attr l = Some g \<and> prediction l > 1 / 2
      then Suc (positive_of py_str attr ls g) else positive_of py_str attr ls g)"
  by (simp add: positive_of_def)

lemma positive_of_zero: "total_of py_str attr logs g = 0 \<Longrightarrow> positive_of py_str attr logs g = 0"
  by (simp add: total_of_def positive_of_def filter_empty_conv)

lemma group_logs_map_of:
  "map_of (group_logs py_str attr logs gs) g =
     (if total_of py_str attr logs g = 0 then map_of gs g
      else Some (case map_of gs g of
                   None \<Rightarrow> (total_of py_str attr logs g, positive_of py_str attr logs g)
                 | Some (t, p) \<Rightarrow> (t + total_of py_str attr logs g,
                                 p + positive_of py_str attr logs g)))"
proof (induction logs arbitrary: gs)
  case Nil
  then show ?case by (simp add: total_of_def)
next
  case (Cons l ls)
  show ?case
  proof (cases "group_of py_str attr l")
    case None
    then show ?thesis
      unfolding group_logs_Cons
      by (simp add: Cons total_of_Cons positive_of_Cons split: option.splits)
  next
    case (Some h)
    show ?thesis
    proof (cases "h = g")
      case True
      then show ?thesis
        unfolding group_logs_Cons using Some
        by (auto simp add: Cons total_of_Cons positive_of_Cons bump_map_of positive_of_zero
              split: option.splits)
    next
      case False
      then show ?thesis
        unfolding group_logs_Cons using Some
        by (simp add: Cons total_of_Cons positive_of_Cons bump_map_of split: option.splits)
    qed
  qed
qed


lemma group_logs_entries:
  assumes "(g, t, p) \<in> set (group_logs py_str attr logs [])"
  shows "t = total_of py_str attr logs g \<and> p = positive_of py_str attr logs g \<and> 0 < t"
proof -
  have "distinct (map fst (group_logs py_str attr logs []))"
    by (rule group_logs_distinct) simp
  then have "map_of (group_logs py_str attr logs []) g = Some (t, p)"
    using assms by (rule map_of_is_SomeI)
  then show ?thesis
    by (simp add: group_logs_map_of split: if_splits)
qed

lemma approval_rates_spec:
  "approval_rates (group_logs py_str attr logs []) =
     map (\<lambda>(g, t, p). (g, spec_approval_rate py_str attr logs g)) (group_logs py_str attr logs [])"
  unfolding approval_rates_def
proof (rule map_cong [OF refl])
  fix x assume x: "x \<in> set (group_logs py_str attr logs [])"
  obtain g t p where xe: "x = (g, t, p)" by (cases x)
  from group_logs_entries [OF x [unfolded xe]]
  show "(case x of (g, t, p) \<Rightarrow> (g, if 0 < t then real p / real t else 0)) =
        (case x of (g, t, p) \<Rightarrow> (g, spec_approval_rate py_str attr logs g))"
    by (simp add: xe spec_approval_rate_def total_of_def positive_of_def)
qed

lemma rates_set:
  "set (map snd (approval_rates (group_logs py_str attr logs []))) =
     spec_approval_rate py_str attr logs ` observed_groups py_str attr logs"
proof -
  have "observed_groups py_str attr logs = fst ` set (group_logs py_str attr logs [])"
    by (simp add: group_logs_keys)
  then show ?thesis
    unfolding approval_rates_spec by (force simp: image_iff)
qed

lemma rates_lookup:
  assumes "(g, t, p) \<in> set (group_logs py_str attr logs [])"
  shows "map_of (approval_rates (group_logs py_str attr logs [])) g =
           Some (spec_approval_rate py_str attr logs g)"
proof -
  have "map fst (approval_rates (group_logs py_str attr logs [])) =
        map fst (group_logs py_str attr logs [])"
    by (simp add: approval_rates_def comp_def case_prod_beta)
  then have "distinct (map fst (approval_rates (group_logs py_str attr logs [])))"
    using group_logs_distinct [of "[]" py_str attr logs] by simp
  moreover have "(g, spec_approval_rate py_str attr logs g)
                   \<in> set (approval_rates (group_logs py_str attr logs []))"
    unfolding approval_rates_spec using assms by force
  ultimately show ?thesis by (rule map_of_is_SomeI)
qed

lemma map_snd_enumerate_fun: "map (\<lambda>x. f (snd x)) (enumerate n xs) = map f xs"
proof -
  have "map (\<lambda>x. f (snd x)) (enumerate n xs) = map f (map snd (enumerate n xs))"
    by (simp only: map_map comp_def)
  then show ?thesis by simp
qed

lemma group_count:
  "length (group_logs py_str attr logs []) = card (observed_groups py_str attr logs)"
proof -
  have "card (set (map fst (group_logs py_str attr logs []))) =
        length (map fst (group_logs py_str attr logs []))"
    by (rule distinct_card) (rule group_logs_distinct, simp)
  then show ?thesis by (simp add: group_logs_keys)
qed

text \<open>
  Claim C4. One run of \<^verbatim>\<open>calculate_fairness_for_model\<close> appends its rows to the table,
  one row per distinct observed group (the names of the rows are distinct and are exactly
  the observed groups, so there are as many rows as groups); every row carries the same
  disparity score, the maximum minus the minimum of the groups' approval rates; and the
  approval rate of a row is the number of its group's predictions above 0.5 over the
  number of its group's predictions.
\<close>

theorem fairness_rows_share_disparity:
  assumes "calculate_fairness_for_model py_str fmt now d model_id attr = (res, d', ls)"
    and "logs = filter (\<lambda>l. pl_model_id l = model_id) (prediction_logs d)"
  shows "fairness_rows d' = fairness_rows d @ fr_groups res
       \<and> distinct (map group_name (fr_groups res))
       \<and> set (map group_name (fr_groups res)) = observed_groups py_str attr logs
       \<and> length (fr_groups res) = card (observed_groups py_str attr logs)
       \<and> map disparity_score (fr_groups res) =
           replicate (card (observed_groups py_str attr logs)) (spec_disparity py_str attr logs)
       \<and> map approval_rate (fr_groups res) =
           map (spec_approval_rate py_str attr logs) (map group_name (fr_groups res))"
proof (cases "group_logs py_str attr logs [] = []")
  case True
  then have og: "observed_groups py_str attr logs = {}"
    using group_logs_keys [of py_str attr logs "[]"] by simp
  have "res = \<lparr>fr_disparity_score = 0, fr_fairness_flag = False, fr_groups = []\<rparr> \<and> d' = d"
    using assms True by (auto simp: calculate_fairness_for_model_def Let_def split: if_splits)
  then show ?thesis by (simp add: og)
next
  case False
  let ?gs = "group_logs py_str attr logs []"
  let ?rates = "approval_rates ?gs"
  have ne: "logs \<noteq> []" using False by auto
  have rne: "?rates \<noteq> []" using False by (simp add: approval_rates_def)
  obtain thr warn where th: "get_fairness_threshold d = (thr, warn)"
    by (cases "get_fairness_threshold d")
  let ?ds = "Max (set (map snd ?rates)) - Min (set (map snd ?rates))"
  let ?row = "\<lambda>(k, g, t, p).
       \<lparr>fm_model_id = model_id, protected_attribute = attr, group_name = g,
        total_predictions = t, positive_predictions = p,
        approval_rate = (case map_of ?rates g of None \<Rightarrow> 0 | Some r \<Rightarrow> r),
        disparity_score = ?ds, fairness_flag = (?ds > thr), fm_timestamp = now k\<rparr>"
  have res: "fr_groups res = map ?row (enumerate 0 ?gs)"
    and d': "d' = d\<lparr>fairness_rows := fairness_rows d @ map ?row (enumerate 0 ?gs)\<rparr>"
    using assms False ne rne th
    by (auto simp: calculate_fairness_for_model_def Let_def)
  have names: "map group_name (fr_groups res) = map fst ?gs"
    unfolding res by (simp add: comp_def case_prod_beta map_snd_enumerate_fun)
  have "map disparity_score (fr_groups res) = replicate (length (enumerate 0 ?gs)) ?ds"
    unfolding res by (simp add: comp_def case_prod_beta map_replicate_const)
  then have disp: "map disparity_score (fr_groups res) = replicate (length ?gs) ?ds"
    by simp
  have dseq: "?ds = spec_disparity py_str attr logs"
    by (simp only: rates_set spec_disparity_def)
  have "map approval_rate (fr_groups res) =
        map (spec_approval_rate py_str attr logs \<circ> fst \<circ> snd) (enumerate 0 ?gs)"
    unfolding res map_map
  proof (rule map_cong [OF refl])
    fix x assume x: "x \<in> set (enumerate 0 ?gs)"
    obtain k g t p where xe: "x = (k, g, t, p)" by (cases x) auto
    have kk: "k < length ?gs" and nk: "?gs ! k = (g, t, p)"
      using x xe by (simp_all add: in_set_enumerate_eq)
    have "(g, t, p) \<in> set ?gs"
      using nth_mem [OF kk] unfolding nk .
    from rates_lookup [OF this]
    show "(approval_rate \<circ> ?row) x = (spec_approval_rate py_str attr logs \<circ> fst \<circ> snd) x"
      by (simp add: xe)
  qed
  then have appr: "map approval_rate (fr_groups res) =
      map (spec_approval_rate py_str attr logs) (map fst ?gs)"
    using map_snd_enumerate_fun [of "\<lambda>y. spec_approval_rate py_str attr logs (fst y)" 0 ?gs]
    by (simp add: comp_def)
  have c1: "fairness_rows d' = fairness_rows d @ fr_groups res"
    unfolding d' res by simp
  have c2: "distinct (map group_name (fr_groups res))"
    unfolding names by (rule group_logs_distinct) simp
  have c3: "set (map group_name (fr_groups res)) = observed_groups py_str attr logs"
    unfolding names by (simp add: group_logs_keys)
  have c4: "length (fr_groups res) = card (observed_groups py_str attr logs)"
    by (metis length_map names group_count)
  have c5: "map disparity_score (fr_groups res) =
           replicate (card (observed_groups py_str attr logs)) (spec_disparity py_str attr logs)"
    unfolding disp dseq group_count ..
  have c6: "map approval_rate (fr_groups res) =
           map (spec_approval_rate py_str attr logs) (map group_name (fr_groups res))"
    unfolding appr names ..
  show ?thesis using c1 c2 c3 c4 c5 c6 by blast
qed


text \<open>
  The example of the claim: approval rates 0.70 and 0.45 give two rows, both with
  disparity score 0.25.
\<close>

lemma ex_fair_logs:
  "filter (\<lambda>l. pl_model_id l = 1) (prediction_logs ex_fair_db) =
     replicate 14 (ex_log ''A'' (9 / 10)) @ replicate 6 (ex_log ''A'' (1 / 10))
       @ replicate 9 (ex_log ''B'' (9 / 10)) @ replicate 11 (ex_log ''B'' (1 / 10))"
  by (simp add: ex_fair_db_def ex_log_def)

lemma ex_group_of: "group_of ex_str ''gender'' (ex_log g p) = Some g"
  by (simp add: group_of_def ex_log_def ex_str_def)

lemma ex_prediction: "prediction (ex_log g p) = p"
  by (simp add: ex_log_def)

lemma ex_observed:
  "observed_groups ex_str ''gender'' (filter (\<lambda>l. pl_model_id l = 1) (prediction_logs ex_fair_db))
     = {''A'', ''B''}"
  unfolding ex_fair_logs
  by (auto simp add: observed_groups_def List.map_filter_def ex_group_of)

lemma ex_rates:
  "spec_approval_rate ex_str ''gender''
     (filter (\<lambda>l. pl_model_id l = 1) (prediction_logs ex_fair_db)) ''A'' = 7 / 10"
  "spec_approval_rate ex_str ''gender''
     (filter (\<lambda>l. pl_model_id l = 1) (prediction_logs ex_fair_db)) ''B'' = 9 / 20"
  unfolding ex_fair_logs
  by (simp_all add: spec_approval_rate_def ex_group_of ex_prediction)

theorem fairness_rows_share_disparity_witness:
  "map disparity_score (fr_groups (fst
      (calculate_fairness_for_model ex_str (\<lambda>x. ''?'') (\<lambda>k. 5) ex_fair_db 1 ''gender''))) = [1 / 4, 1 / 4]
   \<and> set (map approval_rate (fr_groups (fst
      (calculate_fairness_for_model ex_str (\<lambda>x. ''?'') (\<lambda>k. 5) ex_fair_db 1 ''gender'')))) = {7 / 10, 9 / 20}"
proof -
  let ?c = "calculate_fairness_for_model ex_str (\<lambda>x. ''?'') (\<lambda>k. 5) ex_fair_db 1 ''gender''"
  let ?logs = "filter (\<lambda>l. pl_model_id l = 1) (prediction_logs ex_fair_db)"
  have c: "?c = (fst ?c, fst (snd ?c), snd (snd ?c))" by simp
  note t = fairness_rows_share_disparity [OF c refl]
  have sd: "spec_disparity ex_str ''gender'' ?logs = 1 / 4"
    by (simp add: spec_disparity_def ex_observed ex_rates)
  have card2: "card (observed_groups ex_str ''gender'' ?logs) = 2"
    by (simp add: ex_observed)
  have d: "map disparity_score (fr_groups (fst ?c)) = [1 / 4, 1 / 4]"
    using t by (simp add: sd card2 numeral_2_eq_2)
  have "set (map approval_rate (fr_groups (fst ?c))) =
        spec_approval_rate ex_str ''gender'' ?logs ` set (map group_name (fr_groups (fst ?c)))"
    using t by (metis image_set)
  also have "\<dots> = {7 / 10, 9 / 20}"
    using t by (simp add: ex_observed ex_rates del: set_map)
  finally show ?thesis using d by simp
qed

end
